theory Spec2Isabelle
  imports Complex_Main "HOL-Library.Sublist"
begin

section \<open>Python values and text\<close>

text \<open>
  Strings are lists of ASCII characters. Exceptions are values: every Python function that
  can raise returns a sum with the exception on the left. All kinds below are subclasses
  of Python's \<open>Exception\<close>, so an \<open>except Exception\<close> clause catches each of them;
  so is the web framework's \<open>HTTPException\<close>, which carries a status code and a detail.
  The string of \<open>Exn\<close> is what \<open>str(e)\<close> gives; for the exceptions the interpreter
  raises it is abbreviated.
\<close>

datatype exn_kind = KeyError | TypeError | AttributeError | ValueError | IndexError | ExternalError
datatype exn = Exn exn_kind string | HTTPException nat string

definition lower_char :: "char \<Rightarrow> char" where
  "lower_char c = (case map_of (zip ''ABCDEFGHIJKLMNOPQRSTUVWXYZ'' ''abcdefghijklmnopqrstuvwxyz'') c of
      Some d \<Rightarrow> d | None \<Rightarrow> c)"

definition lower :: "string \<Rightarrow> string" where
  "lower s = map lower_char s"

fun substr_in :: "string \<Rightarrow> string \<Rightarrow> bool" where
  "substr_in sub [] = (sub = [])"
| "substr_in sub (c # cs) = (prefix sub (c # cs) \<or> substr_in sub cs)"

definition is_digit :: "char \<Rightarrow> bool" where
  "is_digit c = (c \<in> set ''0123456789'')"

definition digit_val :: "char \<Rightarrow> int" where
  "digit_val c = (case map_of (zip ''0123456789'' [0, 1, 2, 3, 4, 5, 6, 7, 8, 9]) c of
      Some d \<Rightarrow> d | None \<Rightarrow> 0)"

fun dec_value :: "int \<Rightarrow> string \<Rightarrow> int" where
  "dec_value acc [] = acc"
| "dec_value acc (c # cs) = dec_value (10 * acc + digit_val c) cs"

definition is_space :: "char \<Rightarrow> bool" where
  "is_space c = (c \<in> set [CHR '' '', CHR 0x09, CHR 0x0A, CHR 0x0B, CHR 0x0C, CHR 0x0D,
                           CHR 0x1C, CHR 0x1D, CHR 0x1E, CHR 0x1F])"

definition strip :: "string \<Rightarrow> string" where
  "strip s = rev (dropWhile is_space (rev (dropWhile is_space s)))"

fun digits_us :: "bool \<Rightarrow> string \<Rightarrow> string option" where
  "digits_us prev [] = (if prev then Some [] else None)"
| "digits_us prev (c # cs) =
     (if is_digit c then map_option (Cons c) (digits_us True cs)
      else if c = CHR ''_'' \<and> prev then digits_us False cs
      else None)"

definition py_int :: "string \<Rightarrow> exn + int" where
  "py_int s =
     (let t = strip s;
          neg = (case t of c # _ \<Rightarrow> c = CHR ''-'' | [] \<Rightarrow> False);
          body = (case t of c # r \<Rightarrow> if c = CHR ''-'' \<or> c = CHR ''+'' then r else t | [] \<Rightarrow> t)
      in case digits_us False body of
           None \<Rightarrow> Inl (Exn ValueError (''invalid literal for int() with base 10: '' @ s))
         | Some ds \<Rightarrow> Inr (if neg then - dec_value 0 ds else dec_value 0 ds))"

fun str_nat :: "nat \<Rightarrow> string" where
  "str_nat n = (if n < 10 then [''0123456789'' ! n] else str_nat (n div 10) @ [''0123456789'' ! (n mod 10)])"

definition str_int :: "int \<Rightarrow> string" where
  "str_int i = (if i < 0 then CHR ''-'' # str_nat (nat (- i)) else str_nat (nat i))"

section \<open>Documents and Python's operations on them\<close>

text \<open>
  What the graph store returns is JSON: Python sees \<open>None\<close>, booleans, numbers, strings,
  lists and dicts. Numbers are rationals here (Python's \<open>int\<close> and \<open>float\<close> together); a
  dict is an association list read with \<open>map_of\<close>. Each operation raises what Python
  raises on a value of the wrong type.
\<close>

datatype json =
    JNull
  | JBool bool
  | JNum rat
  | JStr string
  | JArr "json list"
  | JObj "(string \<times> json) list"

fun truthy :: "json \<Rightarrow> bool" where
  "truthy JNull = False"
| "truthy (JBool b) = b"
| "truthy (JNum r) = (r \<noteq> 0)"
| "truthy (JStr s) = (s \<noteq> [])"
| "truthy (JArr xs) = (xs \<noteq> [])"
| "truthy (JObj kvs) = (kvs \<noteq> [])"

text \<open>\<open>x[key]\<close> with a string key.\<close>

fun getitem :: "json \<Rightarrow> string \<Rightarrow> exn + json" where
  "getitem (JObj kvs) k =
     (case map_of kvs k of
        Some v \<Rightarrow> Inr v
      | None \<Rightarrow> Inl (Exn KeyError ([CHR 0x27] @ k @ [CHR 0x27])))"
| "getitem (JArr xs) k = Inl (Exn TypeError ''list indices must be integers or slices, not str'')"
| "getitem (JStr s) k = Inl (Exn TypeError ''string indices must be integers, not str'')"
| "getitem v k = Inl (Exn TypeError ''object is not subscriptable'')"

text \<open>\<open>x.get(key, default)\<close>; \<open>x.get(key)\<close> is the call with default \<open>None\<close>.\<close>

fun get_method :: "json \<Rightarrow> string \<Rightarrow> json \<Rightarrow> exn + json" where
  "get_method (JObj kvs) k d = Inr (case map_of kvs k of Some v \<Rightarrow> v | None \<Rightarrow> d)"
| "get_method v k d = Inl (Exn AttributeError ''object has no attribute get'')"

text \<open>\<open>for x in v\<close>: a list gives its elements, a string its characters, a dict its keys.\<close>

fun py_iter :: "json \<Rightarrow> exn + json list" where
  "py_iter (JArr xs) = Inr xs"
| "py_iter (JStr s) = Inr (map (\<lambda>c. JStr [c]) s)"
| "py_iter (JObj kvs) = Inr (map (\<lambda>kv. JStr (fst kv)) kvs)"
| "py_iter v = Inl (Exn TypeError ''object is not iterable'')"

text \<open>\<open>x[:n]\<close>.\<close>

fun slice_to :: "nat \<Rightarrow> json \<Rightarrow> exn + json" where
  "slice_to n (JArr xs) = Inr (JArr (take n xs))"
| "slice_to n (JStr s) = Inr (JStr (take n s))"
| "slice_to n v = Inl (Exn TypeError ''object is not subscriptable'')"

text \<open>\<open>x / d\<close> for a non-zero number \<open>d\<close>; \<open>True\<close> and \<open>False\<close> count as 1 and 0.\<close>

fun truediv :: "json \<Rightarrow> rat \<Rightarrow> exn + json" where
  "truediv (JNum r) d = Inr (JNum (r / d))"
| "truediv (JBool b) d = Inr (JNum ((if b then 1 else 0) / d))"
| "truediv v d = Inl (Exn TypeError ''unsupported operand type(s) for /'')"

text \<open>Sequencing of computations that may raise, and a loop body run over a list.\<close>

definition sbind :: "exn + 'a \<Rightarrow> ('a \<Rightarrow> exn + 'b) \<Rightarrow> exn + 'b" where
  "sbind r f = (case r of Inl e \<Rightarrow> Inl e | Inr x \<Rightarrow> f x)"

fun map_exn :: "('a \<Rightarrow> exn + 'b) \<Rightarrow> 'a list \<Rightarrow> exn + 'b list" where
  "map_exn f [] = Inr []"
| "map_exn f (x # xs) =
     (case f x of
        Inl e \<Rightarrow> Inl e
      | Inr y \<Rightarrow> (case map_exn f xs of Inl e \<Rightarrow> Inl e | Inr ys \<Rightarrow> Inr (y # ys)))"

text \<open>\<open>sep.join(x)\<close>: every element must be a string.\<close>

fun as_str :: "json \<Rightarrow> exn + string" where
  "as_str (JStr s) = Inr s"
| "as_str v = Inl (Exn TypeError ''sequence item: expected str instance'')"

fun intercalate :: "string \<Rightarrow> string list \<Rightarrow> string" where
  "intercalate sep [] = []"
| "intercalate sep [s] = s"
| "intercalate sep (s # t # ss) = s @ sep @ intercalate sep (t # ss)"

definition join :: "string \<Rightarrow> json \<Rightarrow> exn + string" where
  "join sep x =
     sbind (py_iter x) (\<lambda>xs. sbind (map_exn as_str xs) (\<lambda>ss. Inr (intercalate sep ss)))"

section \<open>The graph store and the language model\<close>

text \<open>
  Every query the code sends is a fixed AQL text with values spliced in; a query is
  recorded here by its kind and the spliced values. The store and the model are outside
  the program: they answer with rows (or text) or raise, and the answer may depend on
  everything asked before, so each receives the calls made so far.
\<close>

datatype query =
    Q_find_movie string string
  | Q_subgraph json int
  | Q_title_like string
  | Q_title_first_word string
  | Q_similar_edges json
  | Q_movie_genres json
  | Q_genre_overlap json json
  | Q_genre_top_rated string
  | Q_genre_popular string
  | Q_year_rated int int
  | Q_year_relaxed int int
  | Q_generated string
  | Q_popular_movies
  | Q_popular_with_genres

text \<open>
  The remaining fields are the interpreter's and the framework's text rendering:
  \<open>str_of\<close> is \<open>str(v)\<close> of a value that is not a string, \<open>format_fixed n r\<close> is the
  number \<open>r\<close> with \<open>n\<close> decimals (format code \<open>.nf\<close>), and \<open>http_exception_str\<close> is
  \<open>str(e)\<close> of an \<open>HTTPException\<close>, which differs between versions of the framework.
\<close>

datatype prompt =
    P_create_aql string
  | P_format_results string "json list"
  | P_final_response string string

datatype call = DbCall query | LlmCall prompt

record env =
  db_execute :: "call list \<Rightarrow> query \<Rightarrow> exn + json list"
  llm_invoke :: "call list \<Rightarrow> prompt \<Rightarrow> exn + string"
  str_of :: "json \<Rightarrow> string"
  format_fixed :: "nat \<Rightarrow> rat \<Rightarrow> string"
  http_exception_str :: "nat \<Rightarrow> string \<Rightarrow> string"

text \<open>
  A computation takes the calls made so far and returns its result, or the exception it
  raised, with the calls extended. \<open>try_except\<close> is \<open>try: m except Exception as e: h e\<close>.
\<close>

type_synonym 'a io = "call list \<Rightarrow> (exn + 'a) \<times> call list"

definition return :: "'a \<Rightarrow> 'a io" where
  "return x = (\<lambda>tr. (Inr x, tr))"

definition lift :: "exn + 'a \<Rightarrow> 'a io" where
  "lift r = (\<lambda>tr. (r, tr))"

definition bind :: "'a io \<Rightarrow> ('a \<Rightarrow> 'b io) \<Rightarrow> 'b io" where
  "bind m f = (\<lambda>tr. case m tr of (Inl e, tr') \<Rightarrow> (Inl e, tr') | (Inr x, tr') \<Rightarrow> f x tr')"

definition try_except :: "'a io \<Rightarrow> (exn \<Rightarrow> 'a io) \<Rightarrow> 'a io" where
  "try_except m h = (\<lambda>tr. case m tr of (Inl e, tr') \<Rightarrow> h e tr' | (Inr x, tr') \<Rightarrow> (Inr x, tr'))"

definition db_exec :: "env \<Rightarrow> query \<Rightarrow> (json list) io" where
  "db_exec en q = (\<lambda>tr. (db_execute en tr q, tr @ [DbCall q]))"

definition llm :: "env \<Rightarrow> prompt \<Rightarrow> string io" where
  "llm en p = (\<lambda>tr. (llm_invoke en tr p, tr @ [LlmCall p]))"

definition exn_str :: "env \<Rightarrow> exn \<Rightarrow> string" where
  "exn_str en e = (case e of Exn k m \<Rightarrow> m | HTTPException s d \<Rightarrow> http_exception_str en s d)"

section \<open>graph\_analytics: get\_graph\_data\<close>

text \<open>\<open>s.replace(old, new)\<close> for a non-empty \<open>old\<close>: leftmost occurrences, not overlapping.\<close>

fun replace_scan :: "string \<Rightarrow> string \<Rightarrow> nat \<Rightarrow> string \<Rightarrow> string" where
  "replace_scan old new k [] = []"
| "replace_scan old new (Suc k) (c # cs) = replace_scan old new k cs"
| "replace_scan old new 0 (c # cs) =
     (if prefix old (c # cs) then new @ replace_scan old new (length old - 1) cs
      else c # replace_scan old new 0 cs)"

definition replace :: "string \<Rightarrow> string \<Rightarrow> string \<Rightarrow> string" where
  "replace old new s = replace_scan old new 0 s"

definition canonical_id :: "string \<Rightarrow> string" where
  "canonical_id movie_id = (if prefix ''movie_'' movie_id then movie_id else ''movie_'' @ movie_id)"

definition empty_graph :: json where
  "empty_graph = JObj [(''nodes'', JArr []), (''links'', JArr [])]"

text \<open>Lines 73-81: the entry of the center node. It has no \<open>distance\<close> key.\<close>

definition central_node :: "json \<Rightarrow> exn + json" where
  "central_node graph_data =
     sbind (getitem graph_data ''central'') (\<lambda>central.
     sbind (getitem central ''_id'') (\<lambda>cid.
     sbind (get_method central ''title'' cid) (\<lambda>label.
     sbind (get_method central ''type'' (JStr ''unknown'')) (\<lambda>ty.
     sbind (get_method central ''year'' JNull) (\<lambda>year.
     Inr (JObj [(''id'', cid), (''label'', label), (''type'', ty), (''year'', year),
                (''group'', JStr ''central'')]))))))"

text \<open>
  Lines 83-104: the body of the loop over the traversed nodes. Python evaluates the
  default \<open>node["_id"]\<close> of \<open>node.get("title", node["_id"])\<close> before the call.
\<close>

definition node_label :: "json \<Rightarrow> json \<Rightarrow> exn + json" where
  "node_label node node_type =
     (if node_type = JStr ''movie'' then
        sbind (getitem node ''_id'') (\<lambda>i. get_method node ''title'' i)
      else if node_type = JStr ''genre'' then
        sbind (getitem node ''_id'') (\<lambda>i. get_method node ''name'' i)
      else if node_type = JStr ''tag'' then
        sbind (getitem node ''_id'') (\<lambda>i. get_method node ''name'' i)
      else getitem node ''_id'')"

definition format_node :: "json \<Rightarrow> exn + json" where
  "format_node node_data =
     sbind (getitem node_data ''node'') (\<lambda>node.
     sbind (get_method node ''type'' (JStr ''unknown'')) (\<lambda>node_type.
     sbind (node_label node node_type) (\<lambda>label.
     sbind (getitem node ''_id'') (\<lambda>i.
     sbind (if node_type = JStr ''movie'' then get_method node ''year'' JNull else Inr JNull)
       (\<lambda>year.
     sbind (getitem node_data ''distance'') (\<lambda>distance.
     Inr (JObj [(''id'', i), (''label'', label), (''type'', node_type), (''year'', year),
                (''group'', node_type), (''distance'', distance)])))))))"

definition format_nodes :: "json \<Rightarrow> exn + json list" where
  "format_nodes graph_data =
     sbind (central_node graph_data) (\<lambda>c.
     sbind (getitem graph_data ''nodes'') (\<lambda>ns.
     sbind (py_iter ns) (\<lambda>rows.
     sbind (map_exn format_node rows) (\<lambda>vs. Inr (c # vs)))))"

text \<open>Lines 106-124: the weight of a link, and the loop body that builds its entry.\<close>

definition link_weight :: "json \<Rightarrow> json \<Rightarrow> exn + json" where
  "link_weight link link_type =
     (if link_type = JStr ''similar_to'' then get_method link ''similarity'' (JNum (1 / 2))
      else if link_type = JStr ''rated'' then
        sbind (get_method link ''rating'' (JNum 3)) (\<lambda>r. truediv r 5)
      else Inr (JNum 1))"

definition format_link :: "json \<Rightarrow> exn + json" where
  "format_link link =
     sbind (get_method link ''type'' (JStr ''unknown'')) (\<lambda>link_type.
     sbind (link_weight link link_type) (\<lambda>weight.
     sbind (getitem link ''_from'') (\<lambda>src.
     sbind (getitem link ''_to'') (\<lambda>tgt.
     Inr (JObj [(''source'', src), (''target'', tgt), (''type'', link_type),
                (''weight'', weight)])))))"

definition format_links :: "json \<Rightarrow> exn + json list" where
  "format_links graph_data =
     sbind (getitem graph_data ''links'') (\<lambda>ls.
     sbind (py_iter ls) (\<lambda>rows. map_exn format_link rows))"

definition get_graph_data :: "env \<Rightarrow> string \<Rightarrow> int \<Rightarrow> json io" where
  "get_graph_data en movie_id depth =
     bind (db_exec en (Q_find_movie (canonical_id movie_id)
                         (replace ''movie_'' [] (canonical_id movie_id)))) (\<lambda>movie_result.
     case movie_result of
       [] \<Rightarrow> return empty_graph
     | central_movie # _ \<Rightarrow>
         bind (lift (getitem central_movie ''_id'')) (\<lambda>central_id.
         bind (db_exec en (Q_subgraph central_id depth)) (\<lambda>result.
         case result of
           [] \<Rightarrow> return empty_graph
         | graph_data # _ \<Rightarrow>
             bind (lift (format_nodes graph_data)) (\<lambda>nodes.
             bind (lift (format_links graph_data)) (\<lambda>links.
             return (JObj [(''nodes'', JArr nodes), (''links'', JArr links)]))))))"

text \<open>
  A small store used to run the code: Toy Story with two genres and one similar movie.
  It answers the lookup of the center and the traversal; every other query has no rows.
\<close>

definition toy_story :: json where
  "toy_story = JObj [(''_id'', JStr ''movie_1''), (''type'', JStr ''movie''),
                     (''title'', JStr ''Toy Story''), (''year'', JNum 1995)]"

definition toy_subgraph :: json where
  "toy_subgraph = JObj
     [(''central'', toy_story),
      (''nodes'', JArr
         [JObj [(''node'', JObj [(''_id'', JStr ''genre_animation''), (''type'', JStr ''genre''),
                                 (''name'', JStr ''Animation'')]),
                (''distance'', JNum 1)],
          JObj [(''node'', JObj [(''_id'', JStr ''genre_comedy''), (''type'', JStr ''genre''),
                                 (''name'', JStr ''Comedy'')]),
                (''distance'', JNum 1)],
          JObj [(''node'', JObj [(''_id'', JStr ''movie_2''), (''type'', JStr ''movie''),
                                 (''title'', JStr ''A Bugs Life'')]),
                (''distance'', JNum 1)]]),
      (''links'', JArr
         [JObj [(''_from'', JStr ''movie_1''), (''_to'', JStr ''genre_animation''),
                (''type'', JStr ''belongs_to'')],
          JObj [(''_from'', JStr ''movie_1''), (''_to'', JStr ''genre_comedy''),
                (''type'', JStr ''belongs_to'')],
          JObj [(''_from'', JStr ''movie_1''), (''_to'', JStr ''movie_2''),
                (''type'', JStr ''similar_to''), (''similarity'', JNum (4 / 5))],
          JObj [(''_from'', JStr ''user_7''), (''_to'', JStr ''movie_1''),
                (''type'', JStr ''rated'')]])]"

definition toy_db :: "call list \<Rightarrow> query \<Rightarrow> exn + json list" where
  "toy_db tr q =
     (case q of
        Q_find_movie i legacy \<Rightarrow> if i = ''movie_1'' \<or> legacy = ''1'' then Inr [toy_story] else Inr []
      | Q_subgraph i d \<Rightarrow> if i = JStr ''movie_1'' then Inr [toy_subgraph] else Inr []
      | _ \<Rightarrow> Inr [])"

definition toy_env :: env where
  "toy_env = \<lparr> db_execute = toy_db, llm_invoke = (\<lambda>tr p. Inr ''ok''),
               str_of = (\<lambda>v. ''?''), format_fixed = (\<lambda>n r. ''?''),
               http_exception_str = (\<lambda>s d. d) \<rparr>"

section \<open>app: the graph endpoint\<close>

text \<open>
  An endpoint answers with a body, with an HTTP error (status and detail), or, when the
  framework finds a declared parameter out of its bounds, with its validation error,
  which is status 422 and names the parameter; the handler's body is not run then.
\<close>

datatype response = OK json | HTTPError nat string | ValidationError string

fun status :: "response \<Rightarrow> nat" where
  "status (OK body) = 200"
| "status (HTTPError code detail) = code"
| "status (ValidationError param) = 422"

text \<open>
  \<^verbatim>\<open>depth: int = Query(2, ge=1, le=3)\<close>: a missing depth is 2, a depth below 1 or above 3
  is refused.
\<close>

definition get_movie_graph ::
  "env \<Rightarrow> string \<Rightarrow> int option \<Rightarrow> call list \<Rightarrow> response \<times> call list" where
  "get_movie_graph en movie_id depth_param tr =
     (let depth = (case depth_param of None \<Rightarrow> 2 | Some d \<Rightarrow> d) in
      if depth < 1 \<or> 3 < depth then (ValidationError ''depth'', tr)
      else (case get_graph_data en movie_id depth tr of
              (Inr graph_data, tr') \<Rightarrow> (OK graph_data, tr')
            | (Inl e, tr') \<Rightarrow>
                (HTTPError 500 (''Error fetching graph data: '' @ exn_str en e), tr')))"

text \<open>The depth the specification describes: the caller's depth coerced into 1 to 3.\<close>

definition clamp_depth :: "int \<Rightarrow> int" where
  "clamp_depth d = max 1 (min 3 d)"

text \<open>What the node list of a graph view is measured against, for a traversed row.\<close>

definition is_central :: "json \<Rightarrow> bool" where
  "is_central v = (getitem v ''group'' = Inr (JStr ''central''))"

definition traversed_type :: "json \<Rightarrow> exn + json" where
  "traversed_type row =
     sbind (getitem row ''node'') (\<lambda>node. get_method node ''type'' (JStr ''unknown''))"

definition traversed_view :: "json \<Rightarrow> json \<Rightarrow> bool" where
  "traversed_view row v =
     (case traversed_type row of
        Inl e \<Rightarrow> False
      | Inr t \<Rightarrow>
          (case getitem row ''distance'' of
             Inl e \<Rightarrow> False
           | Inr d \<Rightarrow> getitem v ''group'' = Inr t \<and> getitem v ''type'' = Inr t
                      \<and> getitem v ''distance'' = Inr d))"

section \<open>chat\_agent: year tokens\<close>

text \<open>
  The year branch of the router extracts its tokens with
  \<^verbatim>\<open>re.findall(r'\b(19\d0s|20\d0s|\d{4})\b', query)\<close>. The scanner below is that
  pattern on ASCII text: a match starts at a word boundary, tries the three alternatives
  in order, each followed by a word boundary, and the search resumes after the match.
\<close>

definition is_word_char :: "char \<Rightarrow> bool" where
  "is_word_char c =
     (c \<in> set ''abcdefghijklmnopqrstuvwxyzABCDEFGHIJKLMNOPQRSTUVWXYZ0123456789_'')"

definition head :: "string \<Rightarrow> char option" where
  "head s = (case s of [] \<Rightarrow> None | c # _ \<Rightarrow> Some c)"

definition word_boundary :: "char option \<Rightarrow> char option \<Rightarrow> bool" where
  "word_boundary prev nxt =
     ((case prev of None \<Rightarrow> False | Some c \<Rightarrow> is_word_char c) \<noteq>
      (case nxt of None \<Rightarrow> False | Some c \<Rightarrow> is_word_char c))"

definition decade_at :: "string \<Rightarrow> string \<Rightarrow> string option" where
  "decade_at century s =
     (case s of
        a # b # d # z # e # rest \<Rightarrow>
          if [a, b] = century \<and> is_digit d \<and> z = CHR ''0'' \<and> e = CHR ''s''
             \<and> word_boundary (Some e) (head rest)
          then Some [a, b, d, z, e] else None
      | _ \<Rightarrow> None)"

definition four_digits_at :: "string \<Rightarrow> string option" where
  "four_digits_at s =
     (case s of
        a # b # c # d # rest \<Rightarrow>
          if is_digit a \<and> is_digit b \<and> is_digit c \<and> is_digit d
             \<and> word_boundary (Some d) (head rest)
          then Some [a, b, c, d] else None
      | _ \<Rightarrow> None)"

definition year_match :: "char option \<Rightarrow> string \<Rightarrow> string option" where
  "year_match prev s =
     (if \<not> word_boundary prev (head s) then None
      else case decade_at ''19'' s of
             Some t \<Rightarrow> Some t
           | None \<Rightarrow> (case decade_at ''20'' s of
                        Some t \<Rightarrow> Some t
                      | None \<Rightarrow> four_digits_at s))"

fun scan_years :: "char option \<Rightarrow> nat \<Rightarrow> string \<Rightarrow> string list" where
  "scan_years prev k [] = []"
| "scan_years prev (Suc k) (c # cs) = scan_years (Some c) k cs"
| "scan_years prev 0 (c # cs) =
     (case year_match prev (c # cs) of
        Some tok \<Rightarrow> tok # scan_years (Some c) (length tok - 1) cs
      | None \<Rightarrow> scan_years (Some c) 0 cs)"

definition re_findall_years :: "string \<Rightarrow> string list" where
  "re_findall_years query = scan_years None 0 query"


definition year_token :: "string \<Rightarrow> bool" where
  "year_token tok =
     ((length tok = 4 \<and> list_all is_digit tok) \<or>
      (\<exists>d. is_digit d \<and> (tok = ''19'' @ [d] @ ''0s'' \<or> tok = ''20'' @ [d] @ ''0s'')))"

text \<open>
  Lines 340-348 of \<open>handle_year_query\<close>: the range and the period name of a token.
  \<open>int\<close> may raise \<open>ValueError\<close>, which the handler's \<open>except\<close> catches.
\<close>

definition year_bounds :: "string \<Rightarrow> exn + (int \<times> int \<times> string)" where
  "year_bounds year_str =
     (if length year_str = 4 then
        (case py_int year_str of
           Inl e \<Rightarrow> Inl e
         | Inr year \<Rightarrow> Inr (year, year, str_int year))
      else
        (case py_int (take 4 year_str) of
           Inl e \<Rightarrow> Inl e
         | Inr start_year \<Rightarrow> Inr (start_year, start_year + 9, take 4 year_str @ ''s'')))"


section \<open>chat\_agent: text helpers\<close>

definition nl :: string where
  "nl = [CHR 0x0A]"

definition quote :: string where
  "quote = [CHR 0x27]"

definition fence :: string where
  "fence = [CHR 0x60, CHR 0x60, CHR 0x60]"

definition upper_char :: "char \<Rightarrow> char" where
  "upper_char c = (case map_of (zip ''abcdefghijklmnopqrstuvwxyz'' ''ABCDEFGHIJKLMNOPQRSTUVWXYZ'') c of
      Some d \<Rightarrow> d | None \<Rightarrow> c)"

definition is_alpha :: "char \<Rightarrow> bool" where
  "is_alpha c = (c \<in> set ''abcdefghijklmnopqrstuvwxyzABCDEFGHIJKLMNOPQRSTUVWXYZ'')"

text \<open>\<open>s.title()\<close>: a letter after a non-letter is upper case, a letter after a letter lower.\<close>

fun title_scan :: "bool \<Rightarrow> string \<Rightarrow> string" where
  "title_scan prev [] = []"
| "title_scan prev (c # cs) =
     (if is_alpha c then (if prev then lower_char c else upper_char c) # title_scan True cs
      else c # title_scan False cs)"

definition title_case :: "string \<Rightarrow> string" where
  "title_case s = title_scan False s"

text \<open>\<open>s.split(sep)\<close> for a non-empty \<open>sep\<close>, and \<open>xs[i]\<close> on a list.\<close>

fun split_scan :: "string \<Rightarrow> nat \<Rightarrow> string \<Rightarrow> string \<Rightarrow> string list" where
  "split_scan sep k acc [] = [rev acc]"
| "split_scan sep (Suc k) acc (c # cs) = split_scan sep k acc cs"
| "split_scan sep 0 acc (c # cs) =
     (if prefix sep (c # cs) then rev acc # split_scan sep (length sep - 1) [] cs
      else split_scan sep 0 (c # acc) cs)"

definition split :: "string \<Rightarrow> string \<Rightarrow> string list" where
  "split sep s = split_scan sep 0 [] s"

definition index :: "'a list \<Rightarrow> nat \<Rightarrow> exn + 'a" where
  "index xs i = (if i < length xs then Inr (xs ! i) else Inl (Exn IndexError ''list index out of range''))"

text \<open>\<open>{v}\<close> in an f-string, \<open>{v:.nf}\<close>, and \<open>key in v\<close>.\<close>

definition py_str :: "env \<Rightarrow> json \<Rightarrow> string" where
  "py_str en v = (case v of JStr s \<Rightarrow> s | _ \<Rightarrow> str_of en v)"

fun fmt_f :: "env \<Rightarrow> nat \<Rightarrow> json \<Rightarrow> exn + string" where
  "fmt_f en n (JNum r) = Inr (format_fixed en n r)"
| "fmt_f en n (JBool b) = Inr (format_fixed en n (if b then 1 else 0))"
| "fmt_f en n (JStr s) = Inl (Exn ValueError ''Unknown format code f for object of type str'')"
| "fmt_f en n v = Inl (Exn TypeError ''unsupported format string passed to __format__'')"

fun contains_key :: "string \<Rightarrow> json \<Rightarrow> exn + bool" where
  "contains_key k (JObj kvs) = Inr (map_of kvs k \<noteq> None)"
| "contains_key k (JStr s) = Inr (substr_in k s)"
| "contains_key k (JArr xs) = Inr (JStr k \<in> set xs)"
| "contains_key k v = Inl (Exn TypeError ''argument is not iterable'')"

definition year_suffix :: "env \<Rightarrow> json \<Rightarrow> string" where
  "year_suffix en year = (if truthy year then '' ('' @ py_str en year @ '')'' else [])"

definition genre_suffix :: "json \<Rightarrow> exn + string" where
  "genre_suffix genres =
     (if truthy genres then
        sbind (slice_to 3 genres) (\<lambda>g3. sbind (join '', '' g3) (\<lambda>gs. Inr ('' - Genres: '' @ gs)))
      else Inr [])"

section \<open>chat\_agent: extract\_movie\_titles\<close>

definition common_titles :: "(string \<times> string list) list" where
  "common_titles =
     [(''toy story'', [''toy story'', ''toy stories'', ''toystory'', ''toy storey'']),
      (''star wars'', [''star wars'', ''starwars'', ''star war'']),
      (''the matrix'', [''matrix'', ''the matrix'']),
      (''jurassic park'', [''jurassic park'', ''jurassic'']),
      (''pulp fiction'', [''pulp fiction'', ''pulpfiction'']),
      (''the godfather'', [''godfather'', ''the godfather'']),
      (''titanic'', [''titanic'']),
      (''inception'', [''inception'']),
      (''avatar'', [''avatar'']),
      (''the dark knight'', [''dark knight'', ''the dark knight'', ''batman dark knight''])]"

definition extract_movie_titles :: "string \<Rightarrow> string list" where
  "extract_movie_titles query =
     (let query_lower = lower query in
      map fst (filter (\<lambda>entry. list_ex (\<lambda>variation. substr_in variation query_lower) (snd entry))
                 common_titles))"

section \<open>chat\_agent: the handlers\<close>

text \<open>Lines 160-166: the text of the direct similarities.\<close>

definition similar_line :: "env \<Rightarrow> json \<Rightarrow> exn + string" where
  "similar_line en movie =
     sbind (getitem movie ''movie'') (\<lambda>m.
     sbind (get_method m ''title'' (JStr ''Unnamed movie'')) (\<lambda>title.
     sbind (getitem movie ''similarity'') (\<lambda>similarity.
     sbind (fmt_f en 2 similarity) (\<lambda>s.
     Inr (''- '' @ py_str en title @ '' (similarity: '' @ s @ '')'' @ nl)))))"

definition render_similar :: "env \<Rightarrow> json \<Rightarrow> exn + string" where
  "render_similar en row =
     sbind (getitem row ''source_movie'') (\<lambda>source_title.
     sbind (getitem row ''similar_movies'') (\<lambda>similar_movies.
     sbind (py_iter similar_movies) (\<lambda>ms.
     sbind (map_exn (similar_line en) ms) (\<lambda>lines.
     Inr (''Here are movies similar to '' @ py_str en source_title @ '':'' @ nl @ nl
            @ concat lines)))))"

text \<open>Lines 226-237: the text of the genre fallback.\<close>

definition overlap_line :: "env \<Rightarrow> json \<Rightarrow> exn + string" where
  "overlap_line en movie =
     sbind (get_method movie ''title'' (JStr ''Unnamed movie'')) (\<lambda>title.
     sbind (get_method movie ''year'' (JStr [])) (\<lambda>year.
     sbind (get_method movie ''common_genre_count'' (JNum 0)) (\<lambda>common_count.
     sbind (get_method movie ''movie_genres'' (JArr [])) (\<lambda>movie_genres.
     sbind (slice_to 3 movie_genres) (\<lambda>g3.
     sbind (join '', '' g3) (\<lambda>gs.
     Inr (''- '' @ py_str en title @ year_suffix en year @ '' - Shares ''
            @ py_str en common_count @ '' genres: '' @ gs @ nl)))))))"

definition render_overlap :: "env \<Rightarrow> json \<Rightarrow> json \<Rightarrow> json list \<Rightarrow> exn + string" where
  "render_overlap en movie_title genres similar_result =
     sbind (join '', '' genres) (\<lambda>gs.
     sbind (map_exn (overlap_line en) similar_result) (\<lambda>lines.
     Inr (''Based on genres similar to '' @ py_str en movie_title @ '' ('' @ gs
            @ ''), you might enjoy:'' @ nl @ nl @ concat lines)))"

definition handle_similar_movies_by_genre :: "env \<Rightarrow> json \<Rightarrow> string io" where
  "handle_similar_movies_by_genre en source_movie =
     try_except
       (bind (lift (getitem source_movie ''_id'')) (\<lambda>movie_id.
        bind (lift (get_method source_movie ''title'' (JStr ''this movie''))) (\<lambda>movie_title.
        bind (db_exec en (Q_movie_genres movie_id)) (\<lambda>genre_result.
        bind (case genre_result of
                [] \<Rightarrow> return None
              | row # _ \<Rightarrow>
                  bind (lift (get_method row ''genres'' JNull)) (\<lambda>g.
                  if truthy g then
                    bind (lift (getitem row ''genres'')) (\<lambda>genres.
                    bind (db_exec en (Q_genre_overlap movie_id genres)) (\<lambda>similar_result.
                    if similar_result \<noteq> [] then
                      bind (lift (render_overlap en movie_title genres similar_result))
                        (\<lambda>response_text. return (Some response_text))
                    else return None))
                  else return None)) (\<lambda>returned.
        case returned of
          Some response_text \<Rightarrow> return response_text
        | None \<Rightarrow>
            return (''I couldn'' @ quote @ ''t find movies similar to '' @ py_str en movie_title
                      @ '' based on available data.''))))))
       (\<lambda>e. bind (lift (get_method source_movie ''title'' (JStr ''this movie''))) (\<lambda>t.
             return (''I had trouble finding movies similar to '' @ py_str en t
                       @ '' by genre matching.'')))"

definition handle_similar_movies_query :: "env \<Rightarrow> string \<Rightarrow> string io" where
  "handle_similar_movies_query en movie_title =
     try_except
       (bind (db_exec en (Q_title_like movie_title)) (\<lambda>first_result.
        bind (if first_result = [] then db_exec en (Q_title_first_word movie_title)
              else return first_result) (\<lambda>movie_result.
        case movie_result of
          [] \<Rightarrow>
            return (''I couldn'' @ quote @ ''t find information about '' @ quote @ movie_title
                      @ quote @ ''. Could you check the spelling or try another movie title?'')
        | source_movie # _ \<Rightarrow>
            bind (lift (getitem source_movie ''_id'')) (\<lambda>movie_id.
            bind (db_exec en (Q_similar_edges movie_id)) (\<lambda>similar_result.
            case similar_result of
              [] \<Rightarrow> handle_similar_movies_by_genre en source_movie
            | row # _ \<Rightarrow>
                bind (lift (get_method row ''similar_movies'' JNull)) (\<lambda>sm.
                if truthy sm then lift (render_similar en row)
                else handle_similar_movies_by_genre en source_movie))))))
       (\<lambda>e. return (''I had trouble finding movies similar to '' @ quote @ movie_title @ quote
                      @ ''. The database might not have information about this movie or its relationships.''))"

text \<open>Lines 312-329: the text of a genre listing.\<close>

definition genre_line :: "env \<Rightarrow> bool \<Rightarrow> json \<Rightarrow> exn + string" where
  "genre_line en is_top_rated movie =
     sbind (get_method movie ''title'' (JStr ''Unnamed movie'')) (\<lambda>title.
     sbind (get_method movie ''year'' (JStr [])) (\<lambda>year.
     if is_top_rated then
       sbind (get_method movie ''average_rating'' (JNum 0)) (\<lambda>avg_rating.
       sbind (get_method movie ''number_of_ratings'' (JNum 0)) (\<lambda>num_ratings.
       sbind (fmt_f en 1 avg_rating) (\<lambda>a.
       Inr (''- '' @ py_str en title @ year_suffix en year @ '' - Rating: '' @ a @ '' (''
              @ py_str en num_ratings @ '' ratings)'' @ nl))))
     else
       sbind (get_method movie ''genres'' (JArr [])) (\<lambda>genres.
       sbind (genre_suffix genres) (\<lambda>genre_str.
       Inr (''- '' @ py_str en title @ year_suffix en year @ genre_str @ nl)))))"

definition handle_genre_query :: "env \<Rightarrow> string \<Rightarrow> bool \<Rightarrow> string io" where
  "handle_genre_query en genre is_top_rated =
     try_except
       (bind (db_exec en (if is_top_rated then Q_genre_top_rated genre else Q_genre_popular genre))
          (\<lambda>genre_results.
        if genre_results \<noteq> [] then
          bind (lift (map_exn (genre_line en is_top_rated) genre_results)) (\<lambda>lines.
          return ((if is_top_rated then ''Top rated'' else ''Popular'') @ '' '' @ title_case genre
                    @ '' movies:'' @ nl @ nl @ concat lines))
        else
          return (''I couldn'' @ quote @ ''t find any '' @ genre
                    @ '' movies in the database. Would you like to try a different genre?'')))
       (\<lambda>e. return (''I had trouble finding information about '' @ genre
                      @ '' movies. The database might not have information about this genre.''))"

text \<open>Lines 379-417: the texts of a year listing.\<close>

definition year_line :: "env \<Rightarrow> json \<Rightarrow> exn + string" where
  "year_line en movie =
     sbind (get_method movie ''title'' (JStr ''Unnamed movie'')) (\<lambda>title.
     sbind (get_method movie ''year'' (JStr [])) (\<lambda>year.
     sbind (get_method movie ''average_rating'' (JNum 0)) (\<lambda>avg_rating.
     sbind (if truthy avg_rating then
              sbind (fmt_f en 1 avg_rating) (\<lambda>a. Inr ('' - Rating: '' @ a))
            else Inr []) (\<lambda>rating_str.
     Inr (''- '' @ py_str en title @ '' ('' @ py_str en year @ '')'' @ rating_str @ nl)))))"

definition relaxed_line :: "env \<Rightarrow> json \<Rightarrow> exn + string" where
  "relaxed_line en movie =
     sbind (get_method movie ''title'' (JStr ''Unnamed movie'')) (\<lambda>title.
     sbind (get_method movie ''year'' (JStr [])) (\<lambda>year.
     Inr (''- '' @ py_str en title @ '' ('' @ py_str en year @ '')'' @ nl)))"

definition handle_year_query :: "env \<Rightarrow> string \<Rightarrow> string io" where
  "handle_year_query en year_str =
     try_except
       (bind (lift (year_bounds year_str)) (\<lambda>(start_year, end_year, period_name).
        bind (db_exec en (Q_year_rated start_year end_year)) (\<lambda>year_results.
        if year_results \<noteq> [] then
          bind (lift (map_exn (year_line en) year_results)) (\<lambda>lines.
          return (''Popular movies from the '' @ period_name @ '':'' @ nl @ nl @ concat lines))
        else
          bind (db_exec en (Q_year_relaxed start_year end_year)) (\<lambda>relaxed_results.
          if relaxed_results \<noteq> [] then
            bind (lift (map_exn (relaxed_line en) relaxed_results)) (\<lambda>lines.
            return (''Some movies from the '' @ period_name @ '':'' @ nl @ nl @ concat lines))
          else
            return (''I couldn'' @ quote @ ''t find any movies from the '' @ period_name
                      @ '' in the database.'')))))
       (\<lambda>e. return (''I had trouble finding movies from '' @ year_str
                      @ ''. The database might not have comprehensive information for this time period.''))"

text \<open>Lines 493-576: the last resort of the generic handler.\<close>

definition simple_line :: "env \<Rightarrow> bool \<Rightarrow> json \<Rightarrow> exn + string" where
  "simple_line en has_genre_terms movie =
     sbind (get_method movie ''title'' (JStr ''Unnamed movie'')) (\<lambda>title.
     sbind (get_method movie ''year'' (JStr [])) (\<lambda>year.
     sbind (if has_genre_terms then contains_key ''genres'' movie else Inr False) (\<lambda>with_genres.
     if with_genres then
       sbind (get_method movie ''genres'' (JArr [])) (\<lambda>genres.
       sbind (genre_suffix genres) (\<lambda>genre_str.
       Inr (''- '' @ py_str en title @ year_suffix en year @ genre_str @ nl)))
     else Inr (''- '' @ py_str en title @ year_suffix en year @ nl))))"

definition handle_empty_results :: "env \<Rightarrow> string \<Rightarrow> string io" where
  "handle_empty_results en query =
     (let has_movie_terms =
            list_ex (\<lambda>term. substr_in term (lower query)) [''movie'', ''film'', ''watch'', ''cinema''];
          has_genre_terms =
            list_ex (\<lambda>term. substr_in term (lower query))
              [''genre'', ''category'', ''type'', ''comedy'', ''action'', ''drama'', ''horror''];
          has_rating_terms =
            list_ex (\<lambda>term. substr_in term (lower query))
              [''rate'', ''rating'', ''score'', ''popular'', ''best'', ''top'', ''highest''];
          simple_query =
            (if has_movie_terms \<and> has_rating_terms then Q_popular_movies
             else if has_movie_terms \<and> has_genre_terms then Q_popular_with_genres
             else Q_popular_movies)
      in try_except
           (bind (db_exec en simple_query) (\<lambda>result_data.
            if result_data \<noteq> [] then
              bind (lift (map_exn (simple_line en has_genre_terms) result_data)) (\<lambda>lines.
              return ((if has_rating_terms then
                         ''Here are some popular movies you might be interested in:''
                       else if has_genre_terms then ''Here are some movies with their genres:''
                       else ''Here are some popular movies from the database:'')
                      @ nl @ nl @ concat lines @ nl
                      @ ''I couldn'' @ quote @ ''t find exact matches for your query, so I''
                      @ quote @ ''ve shown some popular movies instead.''))
            else
              return (''I couldn'' @ quote @ ''t find any movies matching your query in the database. Could you try a different search?'')))
           (\<lambda>e. return (''I'' @ quote @ ''m having trouble retrieving movie information from the database right now. Could you try a simpler query or check back later?'')))"

text \<open>Lines 448-452: the query text cut out of the model's answer.\<close>

definition extract_aql :: "string \<Rightarrow> exn + string" where
  "extract_aql content =
     (let aql_query = strip content in
      if substr_in (fence @ ''aql'') aql_query then
        sbind (index (split (fence @ ''aql'') aql_query) 1) (\<lambda>after.
        sbind (index (split fence after) 0) (\<lambda>inner. Inr (strip inner)))
      else if substr_in fence aql_query then
        sbind (index (split fence aql_query) 1) (\<lambda>after.
        sbind (index (split fence after) 0) (\<lambda>inner. Inr (strip inner)))
      else Inr aql_query)"

definition standard_query_processing :: "env \<Rightarrow> string \<Rightarrow> string io" where
  "standard_query_processing en query =
     bind (llm en (P_create_aql query)) (\<lambda>content.
     bind (lift (extract_aql content)) (\<lambda>aql_query.
     try_except
       (bind (db_exec en (Q_generated aql_query)) (\<lambda>result_data.
        if result_data = [] then handle_empty_results en query
        else llm en (P_format_results query result_data)))
       (\<lambda>e. if substr_in ''syntax error'' (lower (exn_str en e))
             then handle_empty_results en query
             else return (''I couldn'' @ quote @ ''t find the information you requested about ''
                            @ query @ ''. Could you try rephrasing your question?''))))"

section \<open>chat\_agent: the router and the chat handler\<close>

definition text_to_aql_to_text :: "env \<Rightarrow> string \<Rightarrow> string io" where
  "text_to_aql_to_text en query =
     (let movie_titles = extract_movie_titles query in
      if list_ex (\<lambda>word. substr_in word (lower query)) [''similar'', ''like'', ''related'']
         \<and> movie_titles \<noteq> []
      then handle_similar_movies_query en (hd movie_titles)
      else if list_ex (\<lambda>genre. substr_in genre (lower query))
                [''comedy'', ''action'', ''drama'', ''horror'', ''sci-fi'']
      then (case filter (\<lambda>genre. substr_in genre (lower query))
                   [''comedy'', ''action'', ''drama'', ''horror'', ''sci-fi'', ''thriller'',
                    ''romance'', ''animation''] of
              genre # _ \<Rightarrow>
                handle_genre_query en genre
                  (substr_in ''top'' (lower query) \<or> substr_in ''best'' (lower query))
            | [] \<Rightarrow> standard_query_processing en query)
      else if list_ex (\<lambda>period. substr_in period (lower query))
                [''90s'', ''80s'', ''2000s'', ''1990'']
      then (case re_findall_years query of
              year # _ \<Rightarrow> handle_year_query en year
            | [] \<Rightarrow> standard_query_processing en query)
      else standard_query_processing en query)"

definition query_movie_graph :: "env \<Rightarrow> string \<Rightarrow> string io" where
  "query_movie_graph en query =
     try_except
       (bind (text_to_aql_to_text en query) (\<lambda>response.
        llm en (P_final_response query response)))
       (\<lambda>e. return (''I encountered an error while processing your request: '' @ exn_str en e
                      @ ''. Could you try rephrasing your question?''))"

section \<open>The fallback stages of a chat request\<close>

text \<open>
  The queries that belong to a fallback stage: the second title lookup and the two
  queries of the genre fallback (similarity handler), the query without the rating
  predicate (year handler), and the fixed template queries (generic handler).
\<close>

fun is_title_retry :: "call \<Rightarrow> bool" where
  "is_title_retry (DbCall (Q_title_first_word t)) = True"
| "is_title_retry c = False"

fun is_source_genres :: "call \<Rightarrow> bool" where
  "is_source_genres (DbCall (Q_movie_genres i)) = True"
| "is_source_genres c = False"

fun is_genre_overlap :: "call \<Rightarrow> bool" where
  "is_genre_overlap (DbCall (Q_genre_overlap i g)) = True"
| "is_genre_overlap c = False"

fun is_year_relaxed :: "call \<Rightarrow> bool" where
  "is_year_relaxed (DbCall (Q_year_relaxed a b)) = True"
| "is_year_relaxed c = False"

fun is_template :: "call \<Rightarrow> bool" where
  "is_template (DbCall Q_popular_movies) = True"
| "is_template (DbCall Q_popular_with_genres) = True"
| "is_template c = False"

definition tried_once :: "call list \<Rightarrow> bool" where
  "tried_once calls =
     (length (filter is_title_retry calls) \<le> 1 \<and>
      length (filter is_source_genres calls) \<le> 1 \<and>
      length (filter is_genre_overlap calls) \<le> 1 \<and>
      length (filter is_year_relaxed calls) \<le> 1 \<and>
      length (filter is_template calls) \<le> 1)"

text \<open>The calls the genre fallback of the similarity handler can add.\<close>

fun bg_shape :: "call list \<Rightarrow> bool" where
  "bg_shape [] = True"
| "bg_shape [DbCall (Q_movie_genres i)] = True"
| "bg_shape [DbCall (Q_movie_genres i), DbCall (Q_genre_overlap j g)] = True"
| "bg_shape calls = False"

text \<open>A store with no rows at all, and a model that answers with a fixed text.\<close>

definition empty_env :: env where
  "empty_env = \<lparr> db_execute = (\<lambda>tr q. Inr []), llm_invoke = (\<lambda>tr p. Inr ''text''),
                 str_of = (\<lambda>v. ''?''), format_fixed = (\<lambda>n r. ''?''),
                 http_exception_str = (\<lambda>s d. d) \<rparr>"

section \<open>app: the analytics endpoint\<close>

text \<open>
  The request body is validated by the framework: \<open>query\<close> is a string and \<open>context\<close> is
  a dict or absent (\<open>None\<close>). The four analytics functions of \<open>graph_analytics\<close> run graph
  algorithms of an external library; here they are functions that answer or raise.
\<close>

record analytics_request =
  req_query :: string
  req_context :: "(string \<times> json) list option"

record analytics =
  calculate_pagerank :: "json \<Rightarrow> exn + json"
  detect_communities :: "json \<Rightarrow> exn + json"
  find_shortest_path :: "json \<Rightarrow> json \<Rightarrow> exn + json"
  calculate_centrality :: "json \<Rightarrow> exn + json"

text \<open>\<open>request.context.get(key, default)\<close>; on \<open>None\<close> it raises \<open>AttributeError\<close>.\<close>

definition context_get :: "analytics_request \<Rightarrow> string \<Rightarrow> json \<Rightarrow> exn + json" where
  "context_get request k d =
     get_method (case req_context request of None \<Rightarrow> JNull | Some kvs \<Rightarrow> JObj kvs) k d"

text \<open>Lines 104-123: the body of the \<open>try\<close>.\<close>

definition run_analytics_body :: "analytics \<Rightarrow> env \<Rightarrow> analytics_request \<Rightarrow> json io" where
  "run_analytics_body an en request =
     (if substr_in ''pagerank'' (lower (req_query request)) then
        bind (lift (context_get request ''limit'' (JNum 10))) (\<lambda>limit.
        bind (lift (calculate_pagerank an limit)) (\<lambda>result.
        return (JObj [(''type'', JStr ''pagerank''), (''result'', result)])))
      else if substr_in ''communit'' (lower (req_query request)) then
        bind (lift (context_get request ''algorithm'' (JStr ''louvain''))) (\<lambda>algorithm.
        bind (lift (detect_communities an algorithm)) (\<lambda>result.
        return (JObj [(''type'', JStr ''communities''), (''result'', result)])))
      else if substr_in ''path'' (lower (req_query request))
              \<or> substr_in ''route'' (lower (req_query request)) then
        bind (lift (context_get request ''source'' JNull)) (\<lambda>source.
        bind (lift (context_get request ''target'' JNull)) (\<lambda>target.
        if \<not> truthy source \<or> \<not> truthy target then
          lift (Inl (HTTPException 400 ''Source and target nodes are required for path analysis''))
        else
          bind (lift (find_shortest_path an source target)) (\<lambda>result.
          return (JObj [(''type'', JStr ''path''), (''result'', result)]))))
      else if substr_in ''central'' (lower (req_query request)) then
        bind (lift (context_get request ''limit'' (JNum 10))) (\<lambda>limit.
        bind (lift (calculate_centrality an limit)) (\<lambda>result.
        return (JObj [(''type'', JStr ''centrality''), (''result'', result)])))
      else
        bind (query_movie_graph en (req_query request)) (\<lambda>response.
        return (JObj [(''type'', JStr ''general''), (''result'', JStr response)])))"

text \<open>
  Lines 103-125: the \<open>try\<close> with its \<open>except Exception\<close>, which turns whatever the body
  raised into an \<open>HTTPException\<close> with status 500.
\<close>

definition run_analytics ::
  "analytics \<Rightarrow> env \<Rightarrow> analytics_request \<Rightarrow> call list \<Rightarrow> response \<times> call list" where
  "run_analytics an en request tr =
     (case run_analytics_body an en request tr of
        (Inr body, tr') \<Rightarrow> (OK body, tr')
      | (Inl e, tr') \<Rightarrow> (HTTPError 500 (''Error running analytics: '' @ exn_str en e), tr'))"

section \<open>recommendation\_engine: the store and its queries\<close>

text \<open>
  The recommendation queries are AQL texts of this repository, so their meaning is part
  of the code. They run over the two collections of the schema: nodes (identifier,
  type, optional legacy id, title, year, popularity) and directed edges (source,
  target, type, optional similarity). A collection is enumerated in the order of its
  list; an absent attribute reads as \<open>null\<close>, which is below every number.
\<close>

record node =
  n_id :: string
  n_type :: string
  n_original_id :: "string option"
  n_title :: "string option"
  n_year :: "int option"
  n_popularity :: "rat option"

record edge =
  e_from :: string
  e_to :: string
  e_type :: string
  e_similarity :: "rat option"

record store =
  st_nodes :: "node list"
  st_edges :: "edge list"

text \<open>
  \<^verbatim>\<open>FOR v, e IN 1..1 OUTBOUND movie MovieLens_node_to_MovieLens_node\<close>: the edges that
  leave the node, each with its target (\<open>null\<close> when no node has that identifier).
\<close>

definition outbound :: "store \<Rightarrow> node \<Rightarrow> (node option \<times> edge) list" where
  "outbound st movie =
     map (\<lambda>e. (find (\<lambda>v. n_id v = e_to e) (st_nodes st), e))
       (filter (\<lambda>e. e_from e = n_id movie) (st_edges st))"

text \<open>
  \<open>SORT\<close> with descending keys. \<open>before a b\<close> says that row \<open>a\<close> may stand before row
  \<open>b\<close>. AQL does not fix the order of rows whose keys are equal; here they keep the
  order in which they were enumerated.
\<close>

fun insert_row :: "('a \<Rightarrow> 'a \<Rightarrow> bool) \<Rightarrow> 'a \<Rightarrow> 'a list \<Rightarrow> 'a list" where
  "insert_row before x [] = [x]"
| "insert_row before x (y # ys) =
     (if before x y then x # y # ys else y # insert_row before x ys)"

definition aql_sort :: "('a \<Rightarrow> 'a \<Rightarrow> bool) \<Rightarrow> 'a list \<Rightarrow> 'a list" where
  "aql_sort before xs = foldr (insert_row before) xs []"

text \<open>AQL's \<open>UNION\<close> appends its arrays and removes no duplicates (\<open>UNION_DISTINCT\<close> does).\<close>

definition aql_union :: "'a list \<Rightarrow> 'a list \<Rightarrow> 'a list" where
  "aql_union xs ys = xs @ ys"

text \<open>Descending order of an attribute that may be \<open>null\<close>.\<close>

fun desc_null :: "rat option \<Rightarrow> rat option \<Rightarrow> bool" where
  "desc_null a None = True"
| "desc_null None (Some y) = False"
| "desc_null (Some x) (Some y) = (y \<le> x)"

text \<open>Lines 22-27: the lookup of the source movie by canonical or legacy identifier.\<close>

definition movie_query :: "store \<Rightarrow> string \<Rightarrow> node list" where
  "movie_query st movie_id =
     take 1 (filter (\<lambda>movie. n_id movie = movie_id
                       \<or> n_original_id movie = Some (replace ''movie_'' [] movie_id))
               (st_nodes st))"

text \<open>
  Lines 37-54: the direct similarities of the source: its \<open>similar_to\<close> edges whose
  similarity is at least the threshold, sorted by similarity alone, cut at the limit.
\<close>

definition similar_rows :: "store \<Rightarrow> node \<Rightarrow> rat \<Rightarrow> nat \<Rightarrow> (node option \<times> rat) list" where
  "similar_rows st movie threshold limit =
     take limit
       (aql_sort (\<lambda>a b. snd b \<le> snd a)
          (List.map_filter
             (\<lambda>(v, e). case e_similarity e of
                          None \<Rightarrow> None
                        | Some s \<Rightarrow> if e_type e = ''similar_to'' \<and> threshold \<le> s
                                    then Some (v, s) else None)
             (outbound st movie)))"

definition similar_query ::
  "store \<Rightarrow> string \<Rightarrow> rat \<Rightarrow> nat \<Rightarrow> (node \<times> (node option \<times> rat) list) list" where
  "similar_query st source_id threshold limit =
     map (\<lambda>movie. (movie, similar_rows st movie threshold limit))
       (filter (\<lambda>movie. n_id movie = source_id) (st_nodes st))"

text \<open>Lines 90-102: the genre identifiers of a movie.\<close>

definition genres_of :: "store \<Rightarrow> node \<Rightarrow> string list" where
  "genres_of st movie =
     List.map_filter
       (\<lambda>(v, e). case v of
                    None \<Rightarrow> None
                  | Some g \<Rightarrow> if e_type e = ''belongs_to'' \<and> n_type g = ''genre''
                              then Some (n_id g) else None)
       (outbound st movie)"

definition genre_query :: "store \<Rightarrow> string \<Rightarrow> (node \<times> string list) list" where
  "genre_query st movie_id =
     map (\<lambda>movie. (movie, genres_of st movie))
       (filter (\<lambda>movie. n_id movie = movie_id) (st_nodes st))"

text \<open>
  Lines 112-135: the genre path. \<open>common_genres\<close> counts the genres of the candidate
  that are among the source's; the score divides it by the length of the \<open>UNION\<close> of
  both genre arrays.
\<close>

definition common_genres :: "string list \<Rightarrow> string list \<Rightarrow> nat" where
  "common_genres source_genres movie_genres =
     length (filter (\<lambda>genre. genre \<in> set source_genres) movie_genres)"

definition genre_similarity :: "string list \<Rightarrow> string list \<Rightarrow> rat" where
  "genre_similarity source_genres movie_genres =
     of_nat (common_genres source_genres movie_genres)
       / of_nat (length (aql_union movie_genres source_genres))"

definition genre_before :: "node \<times> rat \<times> nat \<Rightarrow> node \<times> rat \<times> nat \<Rightarrow> bool" where
  "genre_before a b =
     (fst (snd b) < fst (snd a)
      \<or> (fst (snd a) = fst (snd b) \<and> desc_null (n_popularity (fst a)) (n_popularity (fst b))))"

definition genre_similar_rows ::
  "store \<Rightarrow> string \<Rightarrow> string list \<Rightarrow> nat \<Rightarrow> (node \<times> rat \<times> nat) list" where
  "genre_similar_rows st movie_id source_genres limit =
     take limit
       (aql_sort genre_before
          (List.map_filter
             (\<lambda>movie.
                if 0 < common_genres source_genres (genres_of st movie)
                   \<and> 3 / 10 \<le> genre_similarity source_genres (genres_of st movie)
                then Some (movie, genre_similarity source_genres (genres_of st movie),
                           common_genres source_genres (genres_of st movie))
                else None)
             (filter (\<lambda>movie. n_type movie = ''movie'' \<and> n_id movie \<noteq> movie_id)
                (st_nodes st))))"

section \<open>recommendation\_engine: the two functions\<close>

record recommendation =
  r_id :: string
  r_original_id :: "string option"
  r_title :: string
  r_year :: "int option"
  r_similarity :: rat
  r_common_genre_count :: "nat option"
  r_reason :: string

text \<open>\<open>LIMIT n\<close> with a negative \<open>n\<close> is refused by the store.\<close>

definition aql_limit :: "int \<Rightarrow> exn + nat" where
  "aql_limit limit =
     (if limit < 0 then Inl (Exn ExternalError ''AQL: invalid LIMIT'') else Inr (nat limit))"

definition genre_recommendation :: "node \<times> rat \<times> nat \<Rightarrow> recommendation" where
  "genre_recommendation item =
     \<lparr> r_id = n_id (fst item),
       r_original_id = n_original_id (fst item),
       r_title = (case n_title (fst item) of None \<Rightarrow> ''Unknown'' | Some t \<Rightarrow> t),
       r_year = n_year (fst item),
       r_similarity = fst (snd item),
       r_common_genre_count = Some (snd (snd item)),
       r_reason = ''Shares '' @ str_nat (snd (snd item)) @ '' genres'' \<rparr>"

definition get_recommendations_by_genre ::
  "store \<Rightarrow> string \<Rightarrow> int \<Rightarrow> exn + recommendation list" where
  "get_recommendations_by_genre st movie_id limit =
     (case genre_query st movie_id of
        [] \<Rightarrow> Inr []
      | (movie, source_genres) # _ \<Rightarrow>
          if source_genres = [] then Inr []
          else sbind (aql_limit limit) (\<lambda>n.
               Inr (map genre_recommendation (genre_similar_rows st movie_id source_genres n))))"

text \<open>
  Lines 58-72: an item of the direct path. \<open>movie["_id"]\<close> raises when the edge points
  at no node.
\<close>

definition similar_recommendation :: "node option \<times> rat \<Rightarrow> exn + recommendation" where
  "similar_recommendation item =
     (case fst item of
        None \<Rightarrow> Inl (Exn TypeError ''NoneType object is not subscriptable'')
      | Some movie \<Rightarrow>
          Inr \<lparr> r_id = n_id movie,
                r_original_id = n_original_id movie,
                r_title = (case n_title movie of None \<Rightarrow> ''Unknown'' | Some t \<Rightarrow> t),
                r_year = n_year movie,
                r_similarity = snd item,
                r_common_genre_count = None,
                r_reason = ''Direct similarity'' \<rparr>)"

definition find_similar_movies ::
  "store \<Rightarrow> string \<Rightarrow> rat \<Rightarrow> int \<Rightarrow> exn + recommendation list" where
  "find_similar_movies st movie_id threshold limit =
     (case movie_query st (canonical_id movie_id) of
        [] \<Rightarrow> Inr []
      | source_movie # _ \<Rightarrow>
          sbind (aql_limit limit) (\<lambda>n.
          case similar_query st (n_id source_movie) threshold n of
            [] \<Rightarrow> get_recommendations_by_genre st (n_id source_movie) limit
          | (movie, similar_movies) # _ \<Rightarrow>
              if similar_movies \<noteq> [] then map_exn similar_recommendation similar_movies
              else get_recommendations_by_genre st (n_id source_movie) limit))"

text \<open>
  The score the specification describes: the genres both have, over the genres either
  has, as sets.
\<close>

definition jaccard :: "string list \<Rightarrow> string list \<Rightarrow> rat" where
  "jaccard source_genres movie_genres =
     of_nat (card (set source_genres \<inter> set movie_genres))
       / of_nat (card (set source_genres \<union> set movie_genres))"

text \<open>Stores to run the two paths on.\<close>

definition mk_node :: "string \<Rightarrow> string \<Rightarrow> rat option \<Rightarrow> node" where
  "mk_node i ty pop =
     \<lparr> n_id = i, n_type = ty, n_original_id = None, n_title = None, n_year = None,
       n_popularity = pop \<rparr>"

definition mk_edge :: "string \<Rightarrow> string \<Rightarrow> string \<Rightarrow> rat option \<Rightarrow> edge" where
  "mk_edge a b ty sim = \<lparr> e_from = a, e_to = b, e_type = ty, e_similarity = sim \<rparr>"

definition tie_store :: "rat \<Rightarrow> rat \<Rightarrow> store" where
  "tie_store p2 p3 =
     \<lparr> st_nodes = [mk_node ''movie_1'' ''movie'' (Some 9), mk_node ''movie_2'' ''movie'' (Some p2),
                   mk_node ''movie_3'' ''movie'' (Some p3)],
       st_edges = [mk_edge ''movie_1'' ''movie_2'' ''similar_to'' (Some (4 / 5)),
                   mk_edge ''movie_1'' ''movie_3'' ''similar_to'' (Some (4 / 5))] \<rparr>"

definition genre_store :: store where
  "genre_store =
     \<lparr> st_nodes = [mk_node ''movie_1'' ''movie'' (Some 9), mk_node ''movie_2'' ''movie'' (Some 5),
                   mk_node ''movie_3'' ''movie'' (Some 1), mk_node ''movie_4'' ''movie'' (Some 7),
                   mk_node ''genre_a'' ''genre'' None, mk_node ''genre_b'' ''genre'' None,
                   mk_node ''genre_c'' ''genre'' None],
       st_edges = [mk_edge ''movie_1'' ''genre_a'' ''belongs_to'' None,
                   mk_edge ''movie_1'' ''genre_b'' ''belongs_to'' None,
                   mk_edge ''movie_1'' ''genre_c'' ''belongs_to'' None,
                   mk_edge ''movie_2'' ''genre_a'' ''belongs_to'' None,
                   mk_edge ''movie_3'' ''genre_a'' ''belongs_to'' None,
                   mk_edge ''movie_3'' ''genre_b'' ''belongs_to'' None,
                   mk_edge ''movie_3'' ''genre_c'' ''belongs_to'' None,
                   mk_edge ''movie_4'' ''genre_c'' ''belongs_to'' None,
                   mk_edge ''movie_4'' ''genre_b'' ''belongs_to'' None,
                   mk_edge ''movie_4'' ''genre_a'' ''belongs_to'' None] \<rparr>"


section \<open>Year tokens\<close>

lemma decade_at_token:
  "decade_at c s = Some t \<Longrightarrow> c = ''19'' \<or> c = ''20'' \<Longrightarrow> year_token t"
  by (auto simp: decade_at_def year_token_def split: list.splits if_splits)

lemma four_digits_at_token: "four_digits_at s = Some t \<Longrightarrow> year_token t"
  by (auto simp: four_digits_at_def year_token_def split: list.splits if_splits)

lemma year_match_token: "year_match prev s = Some t \<Longrightarrow> year_token t"
  by (auto simp: year_match_def split: if_splits option.splits
           dest: decade_at_token four_digits_at_token)

lemma scan_years_tokens: "tok \<in> set (scan_years prev k s) \<Longrightarrow> year_token tok"
  by (induction prev k s rule: scan_years.induct)
     (auto split: option.splits dest: year_match_token)



lemma digits_us_digits:
  "list_all is_digit ds \<Longrightarrow> ds \<noteq> [] \<or> prev \<Longrightarrow> digits_us prev ds = Some ds"
  by (induction ds arbitrary: prev) auto

lemma digit_not_space: "is_digit c \<Longrightarrow> \<not> is_space c"
  by (auto simp: is_digit_def is_space_def)

lemma dropWhile_digits: "list_all is_digit ds \<Longrightarrow> dropWhile is_space ds = ds"
  by (cases ds) (auto simp: digit_not_space)

lemma strip_digits: "list_all is_digit ds \<Longrightarrow> strip ds = ds"
proof -
  assume d: "list_all is_digit ds"
  then have "list_all is_digit (rev ds)" by (simp add: list_all_iff)
  then show ?thesis using d by (simp add: strip_def dropWhile_digits)
qed

lemma py_int_digits:
  assumes "list_all is_digit ds" "ds \<noteq> []"
  shows "py_int ds = Inr (dec_value 0 ds)"
proof -
  obtain c r where ds: "ds = c # r" using assms(2) by (cases ds) auto
  have "is_digit c" using assms(1) ds by simp
  then have c: "c \<noteq> CHR ''-''" "c \<noteq> CHR ''+''" by (auto simp: is_digit_def)
  have s: "strip ds = c # r" using strip_digits[OF assms(1)] ds by simp
  have u: "digits_us False (c # r) = Some (c # r)"
    using digits_us_digits[of "c # r" False] assms(1) ds by simp
  show ?thesis
    unfolding py_int_def Let_def s using c u by (simp add: ds del: digits_us.simps)
qed


lemma year_token_bounds:
  assumes "year_token tok"
  shows "(length tok = 4 \<and>
            (\<exists>p. year_bounds tok = Inr (dec_value 0 tok, dec_value 0 tok, p))) \<or>
         (length tok = 5 \<and> dec_value 0 (take 4 tok) mod 10 = 0 \<and>
            year_bounds tok =
              Inr (dec_value 0 (take 4 tok), dec_value 0 (take 4 tok) + 9, tok))"
proof (cases "length tok = 4 \<and> list_all is_digit tok")
  case True
  then have "tok \<noteq> []" by auto
  with True have "py_int tok = Inr (dec_value 0 tok)" by (simp add: py_int_digits)
  with True show ?thesis by (simp add: year_bounds_def)
next
  case False
  with assms obtain d where d: "is_digit d"
    and tok: "tok = ''19'' @ [d] @ ''0s'' \<or> tok = ''20'' @ [d] @ ''0s''"
    by (auto simp: year_token_def)
  from tok have len: "length tok = 5" by auto
  from tok d have dig: "list_all is_digit (take 4 tok)" "take 4 tok \<noteq> []"
    by (auto simp: is_digit_def)
  have pi: "py_int (take 4 tok) = Inr (dec_value 0 (take 4 tok))"
    by (rule py_int_digits[OF dig])
  have m: "dec_value 0 (take 4 tok) mod 10 = 0"
    using tok by (auto simp: digit_val_def)
  have nm: "take 4 tok @ ''s'' = tok" using tok by auto
  show ?thesis using len m pi nm by (simp add: year_bounds_def)
qed

text \<open>
  C8. Every token the year handler receives is a match of the router's pattern. A
  four-character match is read as one year and gives the range from that year to itself;
  a decade match has five characters and gives the ten years that start at the decade
  boundary formed by its first four characters. In particular "1990s" gives 1990 to 1999
  and "2021" gives 2021 to 2021.
\<close>

theorem year_token_ranges:
  "(\<forall>query tok. tok \<in> set (re_findall_years query) \<longrightarrow>
      (length tok = 4 \<and>
         (\<exists>p. year_bounds tok = Inr (dec_value 0 tok, dec_value 0 tok, p))) \<or>
      (length tok = 5 \<and> dec_value 0 (take 4 tok) mod 10 = 0 \<and>
         year_bounds tok =
           Inr (dec_value 0 (take 4 tok), dec_value 0 (take 4 tok) + 9, tok)))
   \<and> year_bounds ''1990s'' = Inr (1990, 1999, ''1990s'')
   \<and> year_bounds ''2021'' = Inr (2021, 2021, ''2021'')"
proof (intro conjI allI impI)
  fix query tok
  assume "tok \<in> set (re_findall_years query)"
  then have "year_token tok"
    unfolding re_findall_years_def by (rule scan_years_tokens)
  then show "(length tok = 4 \<and>
         (\<exists>p. year_bounds tok = Inr (dec_value 0 tok, dec_value 0 tok, p))) \<or>
      (length tok = 5 \<and> dec_value 0 (take 4 tok) mod 10 = 0 \<and>
         year_bounds tok =
           Inr (dec_value 0 (take 4 tok), dec_value 0 (take 4 tok) + 9, tok))"
    by (rule year_token_bounds)
next
  show "year_bounds ''1990s'' = Inr (1990, 1999, ''1990s'')"
    by (simp add: year_bounds_def py_int_def strip_def is_space_def is_digit_def digit_val_def)
next
  show "year_bounds ''2021'' = Inr (2021, 2021, ''2021'')"
    by (simp add: year_bounds_def py_int_def strip_def is_space_def is_digit_def
        digit_val_def str_int_def)
qed

theorem year_token_ranges_witness:
  "''1990s'' \<in> set (re_findall_years ''best movies from the 1990s'') \<and>
   length ''1990s'' = 5 \<and> dec_value 0 (take 4 ''1990s'') mod 10 = 0 \<and>
   year_bounds ''1990s'' = Inr (1990, 1999, ''1990s'')"
proof -
  have m: "''1990s'' \<in> set (re_findall_years ''best movies from the 1990s'')"
    by (simp add: re_findall_years_def year_match_def word_boundary_def head_def
        is_word_char_def decade_at_def four_digits_at_def is_digit_def)
  from year_token_ranges m show ?thesis
    by (simp add: digit_val_def)
qed

section \<open>The graph view\<close>

lemma sbind_Inr: "sbind r f = Inr y \<Longrightarrow> \<exists>x. r = Inr x \<and> f x = Inr y"
  by (cases r) (auto simp: sbind_def)

lemma map_exn_all2:
  "map_exn f xs = Inr ys \<Longrightarrow> (\<And>x y. f x = Inr y \<Longrightarrow> P x y) \<Longrightarrow> list_all2 P xs ys"
  by (induction xs arbitrary: ys) (auto split: sum.splits)

lemma format_node_view: "format_node row = Inr v \<Longrightarrow> traversed_view row v"
  unfolding format_node_def traversed_view_def traversed_type_def
  by (auto simp: sbind_def split: sum.splits)

lemma central_node_props:
  "central_node gd = Inr c \<Longrightarrow>
     is_central c \<and> getitem c ''distance'' = Inl (Exn KeyError ([CHR 0x27] @ ''distance'' @ [CHR 0x27]))"
  unfolding central_node_def is_central_def
  by (auto dest!: sbind_Inr)

lemma no_central_among_traversed:
  "list_all2 traversed_view rows vs \<Longrightarrow>
   \<forall>row \<in> set rows. traversed_type row \<noteq> Inr (JStr ''central'') \<Longrightarrow>
   filter is_central vs = []"
  by (induction rows vs rule: list_all2_induct)
     (auto simp: traversed_view_def is_central_def split: sum.splits)

lemma format_nodes_shape:
  assumes "format_nodes gd = Inr ns"
  shows "\<exists>c vs rows. ns = c # vs \<and> central_node gd = Inr c
           \<and> sbind (getitem gd ''nodes'') py_iter = Inr rows
           \<and> list_all2 traversed_view rows vs"
proof -
  from assms obtain c nv rows vs where c: "central_node gd = Inr c"
    and nv: "getitem gd ''nodes'' = Inr nv" and rows: "py_iter nv = Inr rows"
    and vs: "map_exn format_node rows = Inr vs" and ns: "ns = c # vs"
    unfolding format_nodes_def by (auto dest!: sbind_Inr)
  have "list_all2 traversed_view rows vs"
    using vs by (rule map_exn_all2) (rule format_node_view)
  with c nv rows ns show ?thesis by (auto simp: sbind_def)
qed

lemma get_graph_data_resolved:
  assumes "db_execute en tr (Q_find_movie (canonical_id movie_id)
              (replace ''movie_'' [] (canonical_id movie_id))) = Inr (central_movie # rest1)"
    and "getitem central_movie ''_id'' = Inr central_id"
    and "db_execute en (tr @ [DbCall (Q_find_movie (canonical_id movie_id)
              (replace ''movie_'' [] (canonical_id movie_id)))])
           (Q_subgraph central_id depth) = Inr (graph_data # rest2)"
    and "get_graph_data en movie_id depth tr = (Inr out, tr')"
  shows "\<exists>ns ls. format_nodes graph_data = Inr ns \<and> format_links graph_data = Inr ls
           \<and> out = JObj [(''nodes'', JArr ns), (''links'', JArr ls)]"
  using assms
  by (auto simp: get_graph_data_def bind_def db_exec_def lift_def return_def
           split: sum.splits)

text \<open>
  C5. When the store resolves the center and answers the traversal, and shaping raises
  nothing, the node list of the view starts with the entry of the center, whose group is
  "central" and which has no distance key; the entries after it are, in order, those of
  the traversed rows, each with the row's distance and with group and type both equal to
  the row's node type. If no traversed node has the type "central", the first entry is
  the only one whose group is "central".
\<close>

theorem graph_view_nodes:
  assumes "db_execute en tr (Q_find_movie (canonical_id movie_id)
              (replace ''movie_'' [] (canonical_id movie_id))) = Inr (central_movie # rest1)"
    and "getitem central_movie ''_id'' = Inr central_id"
    and "db_execute en (tr @ [DbCall (Q_find_movie (canonical_id movie_id)
              (replace ''movie_'' [] (canonical_id movie_id)))])
           (Q_subgraph central_id depth) = Inr (graph_data # rest2)"
    and "get_graph_data en movie_id depth tr = (Inr out, tr')"
  shows "\<exists>c vs ls rows.
           out = JObj [(''nodes'', JArr (c # vs)), (''links'', JArr ls)]
         \<and> is_central c
         \<and> getitem c ''distance'' = Inl (Exn KeyError ([CHR 0x27] @ ''distance'' @ [CHR 0x27]))
         \<and> sbind (getitem graph_data ''nodes'') py_iter = Inr rows
         \<and> list_all2 traversed_view rows vs
         \<and> ((\<forall>row \<in> set rows. traversed_type row \<noteq> Inr (JStr ''central''))
              \<longrightarrow> filter is_central (c # vs) = [c])"
proof -
  from get_graph_data_resolved[OF assms] obtain ns ls
    where ns: "format_nodes graph_data = Inr ns"
      and out: "out = JObj [(''nodes'', JArr ns), (''links'', JArr ls)]" by blast
  from format_nodes_shape[OF ns] obtain c vs rows
    where sh: "ns = c # vs" "central_node graph_data = Inr c"
      "sbind (getitem graph_data ''nodes'') py_iter = Inr rows"
      "list_all2 traversed_view rows vs" by blast
  from central_node_props[OF sh(2)] have cp: "is_central c"
    "getitem c ''distance'' = Inl (Exn KeyError ([CHR 0x27] @ ''distance'' @ [CHR 0x27]))"
    by auto
  have "(\<forall>row \<in> set rows. traversed_type row \<noteq> Inr (JStr ''central''))
          \<longrightarrow> filter is_central (c # vs) = [c]"
    using no_central_among_traversed[OF sh(4)] cp(1) by simp
  with out sh cp show ?thesis by blast
qed

theorem graph_view_nodes_witness:
  "db_execute toy_env [] (Q_find_movie (canonical_id ''1'')
       (replace ''movie_'' [] (canonical_id ''1''))) = Inr [toy_story]
   \<and> getitem toy_story ''_id'' = Inr (JStr ''movie_1'')
   \<and> db_execute toy_env [DbCall (Q_find_movie (canonical_id ''1'')
          (replace ''movie_'' [] (canonical_id ''1'')))] (Q_subgraph (JStr ''movie_1'') 2)
       = Inr [toy_subgraph]
   \<and> (\<exists>out tr'. get_graph_data toy_env ''1'' 2 [] = (Inr out, tr')
       \<and> (\<exists>c vs ls rows.
           out = JObj [(''nodes'', JArr (c # vs)), (''links'', JArr ls)]
         \<and> is_central c
         \<and> getitem c ''distance'' = Inl (Exn KeyError ([CHR 0x27] @ ''distance'' @ [CHR 0x27]))
         \<and> sbind (getitem toy_subgraph ''nodes'') py_iter = Inr rows
         \<and> list_all2 traversed_view rows vs
         \<and> length rows = 3
         \<and> filter is_central (c # vs) = [c]))"
proof -
  have q1: "db_execute toy_env [] (Q_find_movie (canonical_id ''1'')
       (replace ''movie_'' [] (canonical_id ''1''))) = Inr (toy_story # [])"
    by (simp add: toy_env_def toy_db_def canonical_id_def replace_def)
  have i: "getitem toy_story ''_id'' = Inr (JStr ''movie_1'')"
    by (simp add: toy_story_def)
  have q2: "db_execute toy_env ([] @ [DbCall (Q_find_movie (canonical_id ''1'')
          (replace ''movie_'' [] (canonical_id ''1'')))]) (Q_subgraph (JStr ''movie_1'') 2)
       = Inr (toy_subgraph # [])"
    by (simp add: toy_env_def toy_db_def)
  obtain out tr' where run: "get_graph_data toy_env ''1'' 2 [] = (Inr out, tr')"
    using q1 q2 i
    by (simp add: get_graph_data_def bind_def db_exec_def lift_def return_def
        toy_subgraph_def toy_story_def format_nodes_def format_links_def sbind_def
        central_node_def format_node_def node_label_def format_link_def link_weight_def)
  from graph_view_nodes[OF q1 i q2 run] obtain c vs ls rows where
    r: "out = JObj [(''nodes'', JArr (c # vs)), (''links'', JArr ls)]" "is_central c"
       "getitem c ''distance'' = Inl (Exn KeyError ([CHR 0x27] @ ''distance'' @ [CHR 0x27]))"
       "sbind (getitem toy_subgraph ''nodes'') py_iter = Inr rows"
       "list_all2 traversed_view rows vs"
       "(\<forall>row \<in> set rows. traversed_type row \<noteq> Inr (JStr ''central''))
              \<longrightarrow> filter is_central (c # vs) = [c]" by blast
  from r(4) have rows: "rows =
         [JObj [(''node'', JObj [(''_id'', JStr ''genre_animation''), (''type'', JStr ''genre''),
                                 (''name'', JStr ''Animation'')]),
                (''distance'', JNum 1)],
          JObj [(''node'', JObj [(''_id'', JStr ''genre_comedy''), (''type'', JStr ''genre''),
                                 (''name'', JStr ''Comedy'')]),
                (''distance'', JNum 1)],
          JObj [(''node'', JObj [(''_id'', JStr ''movie_2''), (''type'', JStr ''movie''),
                                 (''title'', JStr ''A Bugs Life'')]),
                (''distance'', JNum 1)]]"
    by (simp add: toy_subgraph_def sbind_def)
  have "\<forall>row \<in> set rows. traversed_type row \<noteq> Inr (JStr ''central'')"
    unfolding rows by (simp add: traversed_type_def sbind_def)
  with r(6) have one: "filter is_central (c # vs) = [c]" by simp
  have len: "length rows = 3" unfolding rows by simp
  show ?thesis
    using q1 i q2 run r(1-5) one len
    by (intro conjI exI[of _ out] exI[of _ tr'] exI[of _ c] exI[of _ vs] exI[of _ ls]
          exI[of _ rows]) simp_all
qed


text \<open>
  C6. When the lookup of the center (by canonical id or by legacy id) has no rows,
  \<open>get_graph_data\<close> returns the empty structure and raises nothing; the lookup is the
  only query made.
\<close>

theorem unresolved_center_empty_graph:
  assumes "db_execute en tr (Q_find_movie (canonical_id movie_id)
              (replace ''movie_'' [] (canonical_id movie_id))) = Inr []"
  shows "get_graph_data en movie_id depth tr =
           (Inr (JObj [(''nodes'', JArr []), (''links'', JArr [])]),
            tr @ [DbCall (Q_find_movie (canonical_id movie_id)
                    (replace ''movie_'' [] (canonical_id movie_id)))])"
  using assms
  by (simp add: get_graph_data_def bind_def db_exec_def return_def empty_graph_def)

theorem unresolved_center_empty_graph_witness:
  "db_execute toy_env [] (Q_find_movie (canonical_id ''9'')
       (replace ''movie_'' [] (canonical_id ''9''))) = Inr []
   \<and> get_graph_data toy_env ''9'' 2 [] =
       (Inr (JObj [(''nodes'', JArr []), (''links'', JArr [])]),
        [DbCall (Q_find_movie ''movie_9'' ''9'')])"
proof -
  have q: "db_execute toy_env [] (Q_find_movie (canonical_id ''9'')
       (replace ''movie_'' [] (canonical_id ''9''))) = Inr []"
    by (simp add: toy_env_def toy_db_def canonical_id_def replace_def)
  from unresolved_center_empty_graph[OF q, of 2] q show ?thesis
    by (simp add: canonical_id_def replace_def)
qed

text \<open>
  C10. The weight of a link never fails on a missing payload. A \<open>similar_to\<close> link has
  its similarity value, or 0.5 when it has no similarity field; a \<open>rated\<close> link with no
  rating field has 3/5 = 0.6, and with a numeric rating it has rating/5; a link of any
  other type has 1. The weight written into the link's entry is that weight, computed
  for the link's type (or "unknown" when it has none).
\<close>

theorem link_weight_defaults:
  "link_weight (JObj kvs) (JStr ''similar_to'') =
      Inr (case map_of kvs ''similarity'' of Some v \<Rightarrow> v | None \<Rightarrow> JNum (1 / 2))
   \<and> (map_of kvs ''rating'' = None \<longrightarrow>
        link_weight (JObj kvs) (JStr ''rated'') = Inr (JNum (3 / 5)))
   \<and> (map_of kvs ''rating'' = Some (JNum r) \<longrightarrow>
        link_weight (JObj kvs) (JStr ''rated'') = Inr (JNum (r / 5)))
   \<and> (t \<noteq> JStr ''similar_to'' \<and> t \<noteq> JStr ''rated'' \<longrightarrow>
        link_weight (JObj kvs) t = Inr (JNum 1))
   \<and> (format_link (JObj kvs) = Inr out \<longrightarrow>
        (\<exists>w. link_weight (JObj kvs)
                (case map_of kvs ''type'' of Some ty \<Rightarrow> ty | None \<Rightarrow> JStr ''unknown'') = Inr w
             \<and> getitem out ''weight'' = Inr w))"
proof (intro conjI impI)
  show "link_weight (JObj kvs) (JStr ''similar_to'') =
      Inr (case map_of kvs ''similarity'' of Some v \<Rightarrow> v | None \<Rightarrow> JNum (1 / 2))"
    by (simp add: link_weight_def)
next
  assume "map_of kvs ''rating'' = None"
  then show "link_weight (JObj kvs) (JStr ''rated'') = Inr (JNum (3 / 5))"
    by (simp add: link_weight_def sbind_def)
next
  assume "map_of kvs ''rating'' = Some (JNum r)"
  then show "link_weight (JObj kvs) (JStr ''rated'') = Inr (JNum (r / 5))"
    by (simp add: link_weight_def sbind_def)
next
  assume "t \<noteq> JStr ''similar_to'' \<and> t \<noteq> JStr ''rated''"
  then show "link_weight (JObj kvs) t = Inr (JNum 1)"
    by (simp add: link_weight_def)
next
  assume "format_link (JObj kvs) = Inr out"
  then show "\<exists>w. link_weight (JObj kvs)
                (case map_of kvs ''type'' of Some ty \<Rightarrow> ty | None \<Rightarrow> JStr ''unknown'') = Inr w
             \<and> getitem out ''weight'' = Inr w"
    unfolding format_link_def
    by (auto simp: sbind_def split: sum.splits)
qed

theorem link_weight_defaults_witness:
  "link_weight (JObj [(''_from'', JStr ''user_7''), (''_to'', JStr ''movie_1''),
                      (''type'', JStr ''rated'')]) (JStr ''rated'') = Inr (JNum (3 / 5))
   \<and> link_weight (JObj [(''type'', JStr ''rated''), (''rating'', JNum 4)]) (JStr ''rated'')
       = Inr (JNum (4 / 5))
   \<and> link_weight (JObj [(''type'', JStr ''similar_to'')]) (JStr ''similar_to'')
       = Inr (JNum (1 / 2))
   \<and> link_weight (JObj [(''type'', JStr ''belongs_to'')]) (JStr ''belongs_to'')
       = Inr (JNum 1)
   \<and> format_link (JObj [(''_from'', JStr ''user_7''), (''_to'', JStr ''movie_1''),
                        (''type'', JStr ''rated'')])
       = Inr (JObj [(''source'', JStr ''user_7''), (''target'', JStr ''movie_1''),
                    (''type'', JStr ''rated''), (''weight'', JNum (3 / 5))])"
proof -
  have f: "format_link (JObj [(''_from'', JStr ''user_7''), (''_to'', JStr ''movie_1''),
                        (''type'', JStr ''rated'')])
       = Inr (JObj [(''source'', JStr ''user_7''), (''target'', JStr ''movie_1''),
                    (''type'', JStr ''rated''), (''weight'', JNum (3 / 5))])"
    by (simp add: format_link_def link_weight_def sbind_def)
  show ?thesis
    using f
      link_weight_defaults[of "[(''_from'', JStr ''user_7''), (''_to'', JStr ''movie_1''),
                      (''type'', JStr ''rated'')]" 0 "JStr ''rated''"
         "JObj [(''source'', JStr ''user_7''), (''target'', JStr ''movie_1''),
                    (''type'', JStr ''rated''), (''weight'', JNum (3 / 5))]"]
      link_weight_defaults[of "[(''type'', JStr ''rated''), (''rating'', JNum 4)]" 4
         "JStr ''rated''" JNull]
      link_weight_defaults[of "[(''type'', JStr ''similar_to'')]" 0 "JStr ''similar_to''" JNull]
      link_weight_defaults[of "[(''type'', JStr ''belongs_to'')]" 0 "JStr ''belongs_to''" JNull]
    by simp
qed

lemma get_graph_data_calls:
  "\<exists>calls. snd (get_graph_data en movie_id depth tr) = tr @ calls
     \<and> (\<forall>cid k. DbCall (Q_subgraph cid k) \<in> set calls \<longrightarrow> k = depth)"
  by (auto simp: get_graph_data_def bind_def db_exec_def lift_def return_def
           split: sum.splits list.splits)

text \<open>
  C9, as the code has it. The graph endpoint accepts the depths 1, 2 and 3 and passes an
  accepted depth on unchanged; a missing depth is 2; any other depth is refused with the
  validation error and no query is made. \<open>get_graph_data\<close> traverses to the depth it
  is given: every traversal it adds to the calls carries that depth.
\<close>

theorem depth_validated_not_clamped:
  "(1 \<le> d \<and> d \<le> 3 \<longrightarrow>
      get_movie_graph en movie_id (Some d) tr =
        (case get_graph_data en movie_id d tr of
           (Inr graph_data, tr') \<Rightarrow> (OK graph_data, tr')
         | (Inl e, tr') \<Rightarrow> (HTTPError 500 (''Error fetching graph data: '' @ exn_str en e), tr')))
   \<and> (d < 1 \<or> 3 < d \<longrightarrow>
        get_movie_graph en movie_id (Some d) tr = (ValidationError ''depth'', tr))
   \<and> get_movie_graph en movie_id None tr = get_movie_graph en movie_id (Some 2) tr
   \<and> (\<exists>calls. snd (get_graph_data en movie_id d tr) = tr @ calls
        \<and> (\<forall>cid k. DbCall (Q_subgraph cid k) \<in> set calls \<longrightarrow> k = d))"
  using get_graph_data_calls[of en movie_id d tr]
  by (auto simp: get_movie_graph_def)

theorem depth_validated_not_clamped_witness:
  "get_movie_graph toy_env ''9'' (Some 2) [] =
      (OK (JObj [(''nodes'', JArr []), (''links'', JArr [])]),
       [DbCall (Q_find_movie ''movie_9'' ''9'')])
   \<and> get_movie_graph toy_env ''9'' (Some 0) [] = (ValidationError ''depth'', [])
   \<and> get_movie_graph toy_env ''9'' (Some 4) [] = (ValidationError ''depth'', [])"
proof -
  have g: "get_graph_data toy_env ''9'' 2 [] =
      (Inr (JObj [(''nodes'', JArr []), (''links'', JArr [])]),
       [DbCall (Q_find_movie ''movie_9'' ''9'')])"
    by (simp add: get_graph_data_def bind_def db_exec_def return_def empty_graph_def
        toy_env_def toy_db_def canonical_id_def replace_def)
  show ?thesis
    using depth_validated_not_clamped[of 2 toy_env "''9''" "[]"]
      depth_validated_not_clamped[of 0 toy_env "''9''" "[]"]
      depth_validated_not_clamped[of 4 toy_env "''9''" "[]"] g
    by simp
qed

text \<open>
  The claim as the specification words it fails at depth 5: the endpoint does not answer
  as it does for the coerced depth 3 but refuses the request, and \<open>get_graph_data\<close>
  called with 5 asks the store for a traversal to depth 5, not 3.
\<close>

theorem depth_clamp_counterexample:
  "clamp_depth 5 = 3
   \<and> get_movie_graph toy_env ''1'' (Some 5) [] = (ValidationError ''depth'', [])
   \<and> get_movie_graph toy_env ''1'' (Some 5) [] \<noteq>
       get_movie_graph toy_env ''1'' (Some (clamp_depth 5)) []
   \<and> snd (get_graph_data toy_env ''1'' 5 []) =
       [DbCall (Q_find_movie ''movie_1'' ''1''), DbCall (Q_subgraph (JStr ''movie_1'') 5)]"
  by (simp add: clamp_depth_def get_movie_graph_def get_graph_data_def bind_def db_exec_def
      lift_def return_def toy_env_def toy_db_def canonical_id_def replace_def
      toy_subgraph_def toy_story_def format_nodes_def format_links_def sbind_def
      central_node_def format_node_def node_label_def format_link_def link_weight_def)

section \<open>The chat handler\<close>

lemma by_genre_calls:
  "\<exists>r calls. handle_similar_movies_by_genre en sm tr = (r, tr @ calls) \<and> bg_shape calls"
  unfolding handle_similar_movies_by_genre_def
  by (auto simp: bind_def try_except_def lift_def return_def db_exec_def
           split: sum.splits list.splits option.splits)

lemma bg_shape_counts:
  "bg_shape calls \<Longrightarrow>
     filter is_title_retry calls = [] \<and> length (filter is_source_genres calls) \<le> 1
     \<and> length (filter is_genre_overlap calls) \<le> 1 \<and> filter is_year_relaxed calls = []
     \<and> filter is_template calls = []"
  by (induction calls rule: bg_shape.induct) auto

lemma by_genre_dest:
  "handle_similar_movies_by_genre en sm tr = (r, tr') \<Longrightarrow>
     \<exists>calls. tr' = tr @ calls \<and> bg_shape calls"
  using by_genre_calls[of en sm tr] by auto

lemma handle_year_query_calls:
  "\<exists>msg calls. handle_year_query en y tr = (Inr msg, tr @ calls) \<and> tried_once calls"
  unfolding handle_year_query_def
  by (auto simp: bind_def try_except_def lift_def return_def db_exec_def tried_once_def
           split: sum.splits list.splits prod.splits)



lemma handle_genre_query_calls:
  "\<exists>msg calls. handle_genre_query en g is_top tr = (Inr msg, tr @ calls) \<and> tried_once calls"
  unfolding handle_genre_query_def
  by (auto simp: bind_def try_except_def lift_def return_def db_exec_def tried_once_def
           split: sum.splits)


lemma handle_empty_results_calls:
  "\<exists>msg q. handle_empty_results en query tr = (Inr msg, tr @ [DbCall q])
      \<and> is_template (DbCall q)"
  unfolding handle_empty_results_def Let_def
  by (auto simp: bind_def try_except_def lift_def return_def db_exec_def
           simp del: list_ex_Cons_iff split: sum.splits)


lemma by_genre_counts:
  "handle_similar_movies_by_genre en sm tr = (r, tr') \<Longrightarrow>
     \<exists>calls. tr' = tr @ calls
       \<and> filter is_title_retry calls = [] \<and> length (filter is_source_genres calls) \<le> 1
       \<and> length (filter is_genre_overlap calls) \<le> 1 \<and> filter is_year_relaxed calls = []
       \<and> filter is_template calls = []"
  using by_genre_dest[of en sm tr r tr'] bg_shape_counts by blast


lemma handle_similar_movies_query_dest:
  "handle_similar_movies_query en t tr = (r, tr') \<Longrightarrow>
     \<exists>msg rest. r = Inr msg \<and> tr' = tr @ DbCall (Q_title_like t) # rest
       \<and> tried_once (DbCall (Q_title_like t) # rest)"
  unfolding handle_similar_movies_query_def
  by (auto simp: bind_def try_except_def lift_def return_def db_exec_def tried_once_def
           split: sum.splits list.splits prod.splits if_splits dest!: by_genre_counts)


lemma handle_empty_results_dest:
  "handle_empty_results en query tr = (r, tr') \<Longrightarrow>
     \<exists>msg q. r = Inr msg \<and> tr' = tr @ [DbCall q] \<and> is_template (DbCall q)"
  using handle_empty_results_calls[of en query tr] by auto

lemma standard_query_processing_dest:
  "standard_query_processing en query tr = (r, tr') \<Longrightarrow>
     \<exists>calls. tr' = tr @ calls \<and> tried_once calls"
  unfolding standard_query_processing_def
  by (auto simp: bind_def try_except_def lift_def return_def db_exec_def llm_def tried_once_def
           split: sum.splits prod.splits if_splits dest!: handle_empty_results_dest)


lemma text_to_aql_to_text_cases:
  "(\<exists>t. text_to_aql_to_text en query = handle_similar_movies_query en t)
   \<or> (\<exists>g is_top. text_to_aql_to_text en query = handle_genre_query en g is_top)
   \<or> (\<exists>y. text_to_aql_to_text en query = handle_year_query en y)
   \<or> text_to_aql_to_text en query = standard_query_processing en query"
  unfolding text_to_aql_to_text_def Let_def
  by (auto simp del: list_ex_Cons_iff filter.simps split: list.splits)

lemma text_to_aql_to_text_dest:
  assumes "text_to_aql_to_text en query tr = (r, tr')"
  shows "\<exists>calls. tr' = tr @ calls \<and> tried_once calls"
proof -
  consider (sim) t where "text_to_aql_to_text en query = handle_similar_movies_query en t"
    | (genre) g is_top where "text_to_aql_to_text en query = handle_genre_query en g is_top"
    | (year) y where "text_to_aql_to_text en query = handle_year_query en y"
    | (std) "text_to_aql_to_text en query = standard_query_processing en query"
    using text_to_aql_to_text_cases[of en query] by blast
  then show ?thesis
  proof cases
    case sim
    with assms handle_similar_movies_query_dest[of en t tr r tr'] show ?thesis by auto
  next
    case genre
    with assms handle_genre_query_calls[of en g is_top tr] show ?thesis by auto
  next
    case year
    with assms handle_year_query_calls[of en y tr] show ?thesis by auto
  next
    case std
    with assms standard_query_processing_dest[of en query tr r tr'] show ?thesis by auto
  qed
qed

lemma tried_once_llm: "tried_once calls \<Longrightarrow> tried_once (calls @ [LlmCall p])"
  by (simp add: tried_once_def)

text \<open>
  C3. For every free-text input, every store and every model (each may answer or raise
  at each call), the chat handler returns a message string and raises nothing, and among
  the calls it adds each fallback query occurs at most once: the second title lookup,
  the two queries of the genre fallback, the year query without the rating predicate,
  and the template query of the generic handler.
\<close>

theorem chat_handler_total:
  "\<exists>msg calls. query_movie_graph en query tr = (Inr msg, tr @ calls) \<and> tried_once calls"
  unfolding query_movie_graph_def
  by (auto simp: bind_def try_except_def return_def llm_def tried_once_llm
           split: sum.splits prod.splits dest!: text_to_aql_to_text_dest)


lemma extract_movie_titles_nonempty:
  assumes "(title, variations) \<in> set common_titles" "variation \<in> set variations"
    "substr_in variation (lower query)"
  shows "extract_movie_titles query \<noteq> []"
proof -
  have "list_ex (\<lambda>v. substr_in v (lower query)) (snd (title, variations))"
    using assms(2,3) by (auto simp: list_ex_iff)
  with assms(1) show ?thesis
    unfolding extract_movie_titles_def Let_def
    by (auto simp: filter_empty_conv simp del: list_ex_Cons_iff
          intro!: bexI[of _ "(title, variations)"])
qed

text \<open>
  C1. When the lower-cased query contains one of "similar", "like", "related" and some
  variation of an entry of the alias table is a substring of it, the router returns what
  the similarity handler returns for the first matching title of the table, whatever
  genre or year words the query has. For "movies similar to Titanic from the 1990s",
  whose year pattern matches "1990s", that is the similarity handler for "titanic": the
  first call made is the title lookup for "titanic".
\<close>

theorem similarity_dispatch_first:
  "(\<forall>query title variations variation.
      list_ex (\<lambda>word. substr_in word (lower query)) [''similar'', ''like'', ''related'']
      \<and> (title, variations) \<in> set common_titles \<and> variation \<in> set variations
      \<and> substr_in variation (lower query)
      \<longrightarrow> extract_movie_titles query \<noteq> []
          \<and> text_to_aql_to_text en query =
              handle_similar_movies_query en (hd (extract_movie_titles query)))
   \<and> text_to_aql_to_text en ''movies similar to Titanic from the 1990s'' =
       handle_similar_movies_query en ''titanic''
   \<and> re_findall_years ''movies similar to Titanic from the 1990s'' = [''1990s'']
   \<and> (\<forall>tr. \<exists>msg rest.
         text_to_aql_to_text en ''movies similar to Titanic from the 1990s'' tr =
           (Inr msg, tr @ DbCall (Q_title_like ''titanic'') # rest))"
proof (intro conjI allI impI)
  fix query title variations variation
  assume a: "list_ex (\<lambda>word. substr_in word (lower query)) [''similar'', ''like'', ''related'']
      \<and> (title, variations) \<in> set common_titles \<and> variation \<in> set variations
      \<and> substr_in variation (lower query)"
  then show ne: "extract_movie_titles query \<noteq> []"
    using extract_movie_titles_nonempty by blast
  from a ne show "text_to_aql_to_text en query =
              handle_similar_movies_query en (hd (extract_movie_titles query))"
    unfolding text_to_aql_to_text_def Let_def by (simp del: list_ex_Cons_iff)
next
  show t: "text_to_aql_to_text en ''movies similar to Titanic from the 1990s'' =
       handle_similar_movies_query en ''titanic''"
    by (simp add: text_to_aql_to_text_def extract_movie_titles_def common_titles_def
        lower_def lower_char_def)
  fix tr
  obtain r tr' where run: "handle_similar_movies_query en ''titanic'' tr = (r, tr')"
    by (cases "handle_similar_movies_query en ''titanic'' tr") auto
  from handle_similar_movies_query_dest[OF run] run t
  show "\<exists>msg rest.
         text_to_aql_to_text en ''movies similar to Titanic from the 1990s'' tr =
           (Inr msg, tr @ DbCall (Q_title_like ''titanic'') # rest)"
    by auto
next
  show "re_findall_years ''movies similar to Titanic from the 1990s'' = [''1990s'']"
    by (simp add: re_findall_years_def year_match_def word_boundary_def head_def
        is_word_char_def decade_at_def four_digits_at_def is_digit_def)
qed

theorem similarity_dispatch_first_witness:
  "list_ex (\<lambda>word. substr_in word (lower ''movies similar to Titanic from the 1990s''))
      [''similar'', ''like'', ''related'']
   \<and> (''titanic'', [''titanic'']) \<in> set common_titles
   \<and> substr_in ''titanic'' (lower ''movies similar to Titanic from the 1990s'')
   \<and> extract_movie_titles ''movies similar to Titanic from the 1990s'' = [''titanic'']
   \<and> text_to_aql_to_text empty_env ''movies similar to Titanic from the 1990s'' =
       handle_similar_movies_query empty_env
         (hd (extract_movie_titles ''movies similar to Titanic from the 1990s''))"
proof -
  have k: "list_ex (\<lambda>word. substr_in word (lower ''movies similar to Titanic from the 1990s''))
      [''similar'', ''like'', ''related'']"
    by (simp add: lower_def lower_char_def)
  have m: "(''titanic'', [''titanic'']) \<in> set common_titles"
    by (simp add: common_titles_def)
  have s: "substr_in ''titanic'' (lower ''movies similar to Titanic from the 1990s'')"
    by (simp add: lower_def lower_char_def)
  have e: "extract_movie_titles ''movies similar to Titanic from the 1990s'' = [''titanic'']"
    by (simp add: extract_movie_titles_def common_titles_def lower_def lower_char_def)
  from similarity_dispatch_first[of empty_env] k m s
  have "text_to_aql_to_text empty_env ''movies similar to Titanic from the 1990s'' =
       handle_similar_movies_query empty_env
         (hd (extract_movie_titles ''movies similar to Titanic from the 1990s''))"
    by (metis list.set_intros(1))
  with k m s e show ?thesis by blast
qed

section \<open>The analytics endpoint\<close>

lemma run_analytics_status:
  "status (fst (run_analytics an en request tr)) = 200
   \<or> status (fst (run_analytics an en request tr)) = 500"
  unfolding run_analytics_def
  by (cases "run_analytics_body an en request tr") (auto split: sum.splits)

text \<open>
  C4, at a request that asks for a path and whose context has neither source nor target:
  the body raises the \<open>HTTPException\<close> with status 400, the \<open>except\<close> clause of the
  endpoint catches it, and the answer has status 500. The same holds when only the target
  is missing and when the context is absent. No request at all is answered with a status
  other than 200 or 500.
\<close>

theorem path_without_endpoints_status:
  "run_analytics an en \<lparr> req_query = ''shortest path'', req_context = Some [] \<rparr> tr =
     (HTTPError 500 (''Error running analytics: ''
        @ http_exception_str en 400 ''Source and target nodes are required for path analysis''),
      tr)
   \<and> status (fst (run_analytics an en
         \<lparr> req_query = ''find a route'', req_context = Some [(''source'', JStr ''movie_1'')] \<rparr> tr))
       = 500
   \<and> status (fst (run_analytics an en
         \<lparr> req_query = ''shortest path'', req_context = None \<rparr> tr)) = 500
   \<and> (status (fst (run_analytics an en request tr)) = 200
        \<or> status (fst (run_analytics an en request tr)) = 500)"
proof (intro conjI)
  show "run_analytics an en \<lparr> req_query = ''shortest path'', req_context = Some [] \<rparr> tr =
     (HTTPError 500 (''Error running analytics: ''
        @ http_exception_str en 400 ''Source and target nodes are required for path analysis''),
      tr)"
    by (simp add: run_analytics_def run_analytics_body_def lower_def lower_char_def
        context_get_def bind_def lift_def exn_str_def)
  show "status (fst (run_analytics an en
         \<lparr> req_query = ''find a route'', req_context = Some [(''source'', JStr ''movie_1'')] \<rparr> tr))
       = 500"
    by (simp add: run_analytics_def run_analytics_body_def lower_def lower_char_def
        context_get_def bind_def lift_def exn_str_def)
  show "status (fst (run_analytics an en
         \<lparr> req_query = ''shortest path'', req_context = None \<rparr> tr)) = 500"
    by (simp add: run_analytics_def run_analytics_body_def lower_def lower_char_def
        context_get_def bind_def lift_def exn_str_def)
  show "status (fst (run_analytics an en request tr)) = 200
        \<or> status (fst (run_analytics an en request tr)) = 500"
    by (rule run_analytics_status)
qed


end
